theory Spec2Isabelle
  imports Complex_Main "HOL-Library.Sublist"
begin

chapter \<open>The model\<close>

section \<open>Numbers\<close>

text \<open>
  A JavaScript \<^verbatim>\<open>number\<close> is a double. In the zone calculator, the matchers and
  the balloon placer, coordinates, sizes and counts are modelled by \<^typ>\<open>real\<close> and the
  arithmetic on finite values is exact. Where the code itself distinguishes the non-finite
  values (the guard of \<^verbatim>\<open>calculateDrawingZone\<close>) or produces them from finite ones
  (a division by a string length that may be zero), the value ranges over \<open>jsnum\<close>.
  The leader calculator is modelled on doubles with their rounding, see the section on
  double arithmetic below: whether its loop runs depends on that rounding alone.
\<close>

datatype jsnum = Num real | PosInf | NegInf | NaN

fun isFinite :: "jsnum \<Rightarrow> bool" where
  "isFinite (Num r) = True"
| "isFinite PosInf = False"
| "isFinite NegInf = False"
| "isFinite NaN = False"

text \<open>\<^verbatim>\<open>a < b\<close> and \<^verbatim>\<open>a <= b\<close>: every comparison with NaN is false.\<close>

fun jsLess :: "jsnum \<Rightarrow> jsnum \<Rightarrow> bool" where
  "jsLess NaN b = False"
| "jsLess a NaN = False"
| "jsLess (Num a) (Num b) = (a < b)"
| "jsLess (Num a) PosInf = True"
| "jsLess (Num a) NegInf = False"
| "jsLess PosInf b = False"
| "jsLess NegInf NegInf = False"
| "jsLess NegInf b = True"

fun jsLessEq :: "jsnum \<Rightarrow> jsnum \<Rightarrow> bool" where
  "jsLessEq NaN b = False"
| "jsLessEq a NaN = False"
| "jsLessEq (Num a) (Num b) = (a \<le> b)"
| "jsLessEq (Num a) PosInf = True"
| "jsLessEq (Num a) NegInf = False"
| "jsLessEq PosInf PosInf = True"
| "jsLessEq PosInf b = False"
| "jsLessEq NegInf b = True"

text \<open>\<^verbatim>\<open>a / b\<close> for finite operands: a division by zero gives an infinity or NaN.\<close>

definition jsDiv :: "real \<Rightarrow> real \<Rightarrow> jsnum" where
  "jsDiv a b =
     (if b \<noteq> 0 then Num (a / b)
      else if a = 0 then NaN
      else if 0 < a then PosInf
      else NegInf)"

text \<open>\<^verbatim>\<open>Math.max(a, b)\<close>: NaN if either argument is NaN.\<close>

fun jsMax :: "jsnum \<Rightarrow> jsnum \<Rightarrow> jsnum" where
  "jsMax NaN b = NaN"
| "jsMax a NaN = NaN"
| "jsMax PosInf b = PosInf"
| "jsMax a PosInf = PosInf"
| "jsMax NegInf b = b"
| "jsMax a NegInf = a"
| "jsMax (Num a) (Num b) = Num (max a b)"

text \<open>\<^verbatim>\<open>Math.hypot(a, b)\<close> on finite arguments.\<close>

definition hypot :: "real \<Rightarrow> real \<Rightarrow> real" where
  "hypot a b = sqrt (a\<^sup>2 + b\<^sup>2)"

text \<open>The decimal text of an integer, as a template literal prints it.\<close>

fun showNat :: "nat \<Rightarrow> string" where
  "showNat n =
     (if n < 10 then [''0123456789'' ! n]
      else showNat (n div 10) @ [''0123456789'' ! (n mod 10)])"

declare showNat.simps [simp del]

definition intToString :: "int \<Rightarrow> string" where
  "intToString i = (if i < 0 then ''-'' @ showNat (nat (- i)) else showNat (nat i))"

text \<open>
  \<^verbatim>\<open>xs[i]\<close> for an integer \<open>i\<close>: \<^verbatim>\<open>undefined\<close> (here \<open>None\<close>) outside the array.
\<close>

definition jsIndex :: "'a list \<Rightarrow> int \<Rightarrow> 'a option" where
  "jsIndex xs i = (if 0 \<le> i \<and> i < int (length xs) then Some (xs ! nat i) else None)"


section \<open>Double arithmetic\<close>

text \<open>
  A finite double is a real with a significand of 53 bits and a binary exponent between
  \<open>-1074\<close> (the subnormal numbers) and \<open>971\<close>. \<open>ulpExponent r\<close> is the exponent of
  the spacing of the doubles in the binade of \<open>r\<close>, and \<open>roundDouble r\<close> is the double
  nearest to the real \<open>r\<close>, a tie going to the even significand; a result of magnitude
  \<open>2 ^ 1024\<close> or more is an infinity. The sign of a zero is not represented: no
  function of the model depends on it.
\<close>

definition ulpExponent :: "real \<Rightarrow> int" where
  "ulpExponent r = max (\<lfloor>log 2 \<bar>r\<bar>\<rfloor> - 52) (- 1074)"

definition roundHalfEven :: "real \<Rightarrow> int" where
  "roundHalfEven q =
     (let f = \<lfloor>q\<rfloor>; d = q - of_int f
      in if d < 1 / 2 then f else if 1 / 2 < d then f + 1 else if even f then f else f + 1)"

definition overflowLimit :: real where
  "overflowLimit = 2 ^ 1024"

definition roundDouble :: "real \<Rightarrow> jsnum" where
  "roundDouble r =
     (if r = 0 then Num 0
      else let e = ulpExponent r;
               v = of_int (roundHalfEven (r / 2 powi e)) * 2 powi e
           in if overflowLimit \<le> \<bar>v\<bar> then (if 0 < v then PosInf else NegInf) else Num v)"

text \<open>\<^verbatim>\<open>-a\<close>, \<^verbatim>\<open>a + b\<close> and \<^verbatim>\<open>a - b\<close> on doubles: the exact result, rounded.\<close>

fun jsNeg :: "jsnum \<Rightarrow> jsnum" where
  "jsNeg (Num a) = Num (- a)"
| "jsNeg PosInf = NegInf"
| "jsNeg NegInf = PosInf"
| "jsNeg NaN = NaN"

fun jsAdd :: "jsnum \<Rightarrow> jsnum \<Rightarrow> jsnum" where
  "jsAdd NaN b = NaN"
| "jsAdd a NaN = NaN"
| "jsAdd (Num a) (Num b) = roundDouble (a + b)"
| "jsAdd PosInf NegInf = NaN"
| "jsAdd NegInf PosInf = NaN"
| "jsAdd PosInf b = PosInf"
| "jsAdd NegInf b = NegInf"
| "jsAdd a PosInf = PosInf"
| "jsAdd a NegInf = NegInf"

definition jsSub :: "jsnum \<Rightarrow> jsnum \<Rightarrow> jsnum" where
  "jsSub a b = jsAdd a (jsNeg b)"

text \<open>
  \<^verbatim>\<open>Math.hypot(a, b)\<close> on doubles: an infinite argument gives \<^verbatim>\<open>Infinity\<close> even beside
  a NaN. On finite arguments the result is taken as correctly rounded. The language leaves
  the accuracy of \<^verbatim>\<open>Math.hypot\<close> to the implementation; the properties below use it where
  the exact result is \<open>0\<close> or \<open>128\<close>, itself a double, or lies between
  \<open>32\<close> and \<open>64\<close> and is only compared with \<open>5\<close>.
\<close>

definition jsHypot :: "jsnum \<Rightarrow> jsnum \<Rightarrow> jsnum" where
  "jsHypot a b =
     (if a = PosInf \<or> a = NegInf \<or> b = PosInf \<or> b = NegInf then PosInf
      else case (a, b) of
             (Num p, Num q) \<Rightarrow> roundDouble (sqrt (p\<^sup>2 + q\<^sup>2))
           | _ \<Rightarrow> NaN)"


section \<open>Zone calculator\<close>

text \<open>
  \<^verbatim>\<open>
  function calculateDrawingZone(x, y, pageWidth, pageHeight): string {
    if (!Number.isFinite(pageWidth) || pageWidth <= 0 ||
        !Number.isFinite(pageHeight) || pageHeight <= 0) {
      throw new Error(`Invalid page dimensions for zone calculation: ...`);
    }
    const columns = ['A', 'B', 'C', 'D', 'E', 'F', 'G', 'H'];
    const columnWidth = pageWidth / columns.length;
    const columnIndex = Math.min(Math.floor(x / columnWidth), columns.length - 1);
    const column = columns[columnIndex];
    const numRows = 8;
    const rowHeight = pageHeight / numRows;
    const rowIndex = Math.min(Math.floor((pageHeight - y) / rowHeight), numRows - 1);
    const row = rowIndex + 1;
    return `${column}-${row}`;
  }
  \<close>
  The page dimensions range over \<open>jsnum\<close>, the point is finite. The thrown error is the
  left summand. A column read outside the array is \<^verbatim>\<open>undefined\<close>, which the template
  literal prints as the word.
\<close>

datatype zoneError = InvalidPageDimensions jsnum jsnum

definition columns :: "string list" where
  "columns = [''A'', ''B'', ''C'', ''D'', ''E'', ''F'', ''G'', ''H'']"

definition numRows :: int where
  "numRows = 8"

definition columnIndex :: "real \<Rightarrow> real \<Rightarrow> int" where
  "columnIndex x pageWidth =
     (let columnWidth = pageWidth / real (length columns)
      in min \<lfloor>x / columnWidth\<rfloor> (int (length columns) - 1))"

definition rowIndex :: "real \<Rightarrow> real \<Rightarrow> int" where
  "rowIndex y pageHeight =
     (let rowHeight = pageHeight / real_of_int numRows
      in min \<lfloor>(pageHeight - y) / rowHeight\<rfloor> (numRows - 1))"

definition zoneText :: "real \<Rightarrow> real \<Rightarrow> real \<Rightarrow> real \<Rightarrow> string" where
  "zoneText x y pageWidth pageHeight =
     (let column = jsIndex columns (columnIndex x pageWidth);
          row = rowIndex y pageHeight + 1
      in (case column of None \<Rightarrow> ''undefined'' | Some c \<Rightarrow> c) @ ''-'' @ intToString row)"

text \<open>The value of a number that has passed \<^verbatim>\<open>Number.isFinite\<close>.\<close>

fun finiteValue :: "jsnum \<Rightarrow> real" where
  "finiteValue (Num r) = r"
| "finiteValue v = 0"

definition calculateDrawingZone :: "real \<Rightarrow> real \<Rightarrow> jsnum \<Rightarrow> jsnum \<Rightarrow> zoneError + string" where
  "calculateDrawingZone x y pageWidth pageHeight =
     (if \<not> isFinite pageWidth \<or> jsLessEq pageWidth (Num 0) \<or>
         \<not> isFinite pageHeight \<or> jsLessEq pageHeight (Num 0)
      then Inl (InvalidPageDimensions pageWidth pageHeight)
      else Inr (zoneText x y (finiteValue pageWidth) (finiteValue pageHeight)))"

text \<open>What the specification calls a finite positive dimension.\<close>

definition finitePositive :: "jsnum \<Rightarrow> bool" where
  "finitePositive v = (isFinite v \<and> jsLess (Num 0) v)"

text \<open>The 64 zone codes, and the column letter and row number read off a code.\<close>

definition rowLabels :: "string list" where
  "rowLabels = map (\<lambda>d. [d]) ''12345678''"

definition zoneCodes :: "string list" where
  "zoneCodes = concat (map (\<lambda>c. map (\<lambda>r. c @ ''-'' @ r) rowLabels) columns)"

definition zoneColumn :: "string \<Rightarrow> nat" where
  "zoneColumn z = of_char (hd z)"

definition zoneRow :: "string \<Rightarrow> nat" where
  "zoneRow z = of_char (last z) - of_char CHR ''0''"


section \<open>Balloon size\<close>

text \<open>
  \<^verbatim>\<open>
  function calculateBalloonSize(totalCharacteristics: number): number {
    if (totalCharacteristics <= 20) return 24;
    if (totalCharacteristics <= 40) return 20;
    if (totalCharacteristics <= 60) return 18;
    if (totalCharacteristics <= 80) return 16;
    return 14;
  }
  \<close>
\<close>

definition calculateBalloonSize :: "real \<Rightarrow> real" where
  "calculateBalloonSize totalCharacteristics =
     (if totalCharacteristics \<le> 20 then 24
      else if totalCharacteristics \<le> 40 then 20
      else if totalCharacteristics \<le> 60 then 18
      else if totalCharacteristics \<le> 80 then 16
      else 14)"


section \<open>Leader calculator\<close>

text \<open>
  \<^verbatim>\<open>
  function computeLeaderOffset(xPosition, yPosition,
      direction?: { horizontal?: 'left' | 'right'; vertical?: 'up' | 'down' }) {
    const MIN_LEADER_DISTANCE = 5;
    let horizontalOffset = 30;
    let verticalOffset = 15;
    const horizontalDir = direction?.horizontal || 'right';
    const verticalDir = direction?.vertical || 'down';
    let leaderX = xPosition + (horizontalDir === 'right' ? horizontalOffset : -horizontalOffset);
    let leaderY = yPosition + (verticalDir === 'down' ? verticalOffset : -verticalOffset);
    let distance = Math.hypot(leaderX - xPosition, leaderY - yPosition);
    while (distance < MIN_LEADER_DISTANCE) {
      horizontalOffset += 10;
      verticalOffset += 5;
      leaderX = ...; leaderY = ...; distance = ...;   // the same three expressions
    }
    return { leaderX, leaderY };
  }
  \<close>
  The positions are doubles and every operation rounds. The three assignments before the
  loop and in its body are the same expressions of the offsets, so the loop is the
  recursion \<open>leaderLoop\<close> on the two offsets: it computes the leader point and the
  distance, and either returns or grows the offsets and repeats. Nothing in the body bounds
  the number of runs, so the recursion is a partial function: \<open>None\<close> is a call that
  does not return.
\<close>

datatype horizontalDir = Left | Right

datatype verticalDir = Up | Down

record direction =
  horizontal :: "horizontalDir option"
  vertical :: "verticalDir option"

record leader =
  leaderX :: jsnum
  leaderY :: jsnum

definition MIN_LEADER_DISTANCE :: real where
  "MIN_LEADER_DISTANCE = 5"

definition leaderAt :: "jsnum \<Rightarrow> jsnum \<Rightarrow> horizontalDir \<Rightarrow> verticalDir \<Rightarrow> jsnum \<Rightarrow> jsnum \<Rightarrow> leader" where
  "leaderAt xPosition yPosition horizontalDir verticalDir horizontalOffset verticalOffset =
     \<lparr> leaderX = jsAdd xPosition
                   (if horizontalDir = Right then horizontalOffset else jsNeg horizontalOffset),
       leaderY = jsAdd yPosition
                   (if verticalDir = Down then verticalOffset else jsNeg verticalOffset) \<rparr>"

partial_function (option) leaderLoop ::
  "jsnum \<Rightarrow> jsnum \<Rightarrow> horizontalDir \<Rightarrow> verticalDir \<Rightarrow> jsnum \<Rightarrow> jsnum \<Rightarrow> leader option" where
  "leaderLoop xPosition yPosition horizontalDir verticalDir horizontalOffset verticalOffset =
     (let l = leaderAt xPosition yPosition horizontalDir verticalDir horizontalOffset verticalOffset;
          distance = jsHypot (jsSub (leaderX l) xPosition) (jsSub (leaderY l) yPosition)
      in if jsLess distance (Num MIN_LEADER_DISTANCE)
         then leaderLoop xPosition yPosition horizontalDir verticalDir
                (jsAdd horizontalOffset (Num 10)) (jsAdd verticalOffset (Num 5))
         else Some l)"

definition computeLeaderOffset :: "jsnum \<Rightarrow> jsnum \<Rightarrow> direction option \<Rightarrow> leader option" where
  "computeLeaderOffset xPosition yPosition dir =
     (let horizontalDir =
            (case dir of None \<Rightarrow> Right
             | Some d \<Rightarrow> (case horizontal d of None \<Rightarrow> Right | Some h \<Rightarrow> h));
          verticalDir =
            (case dir of None \<Rightarrow> Down
             | Some d \<Rightarrow> (case vertical d of None \<Rightarrow> Down | Some v \<Rightarrow> v))
      in leaderLoop xPosition yPosition horizontalDir verticalDir (Num 30) (Num 15))"


section \<open>Text matcher\<close>

text \<open>
  A JavaScript string is a sequence of UTF-16 code units. The model is \<^typ>\<open>string\<close>,
  a list of characters with the codes 0 to 255, read as the code units U+0000 to U+00FF
  (Latin-1): \<open>length\<close> counts code units as \<^verbatim>\<open>.length\<close> does, and the symbols
  U+00B1 (plus-minus), U+00B0 (degree) and U+00D8 (diameter) are single characters. Text
  with a code unit above U+00FF (such as U+2205) is outside the model.
\<close>

text \<open>
  Modelled from the spec: the interfaces \<^verbatim>\<open>PDFTextItem\<close> and \<^verbatim>\<open>PDFPageInfo\<close> are declared
  in the module \<^verbatim>\<open>pdfParser\<close>, which is not among the sources. The data model of the
  specification has a text item with its text, its 1-indexed page number, x, y, width and
  height (absolute points), and a page with its page number, width, height and the ordered
  sequence of its text items. \<open>TextMatch\<close> is declared in the source, with a 0-indexed
  page.
\<close>

record PDFTextItem =
  ti_text :: string
  ti_page :: int
  ti_x :: real
  ti_y :: real
  ti_width :: real
  ti_height :: real

record PDFPageInfo =
  pg_pageNumber :: int
  pg_width :: real
  pg_height :: real
  pg_textItems :: "PDFTextItem list"

record TextMatch =
  tm_text :: string
  tm_page :: int
  tm_x :: real
  tm_y :: real
  tm_width :: real
  tm_height :: real
  tm_confidence :: jsnum

text \<open>
  \<^verbatim>\<open>
  function cleanText(text: string): string {
    return text
      .toLowerCase()
      .replace(/\s+/g, ' ')
      .replace(/[^\w\s.<plus-minus><degree><diameter><empty set>]/g, '')
      .trim();
  }
  \<close>
  On the code units below U+0100: \<^verbatim>\<open>toLowerCase\<close> moves A-Z and U+00C0..U+00DE (except
  the multiplication sign U+00D7) up by 32; \<^verbatim>\<open>\s\<close> and \<^verbatim>\<open>trim\<close> know the white space
  U+0009..U+000D, U+0020 and U+00A0; \<^verbatim>\<open>\w\<close> is \<^verbatim>\<open>[A-Za-z0-9_]\<close>.
\<close>

definition toLowerChar :: "char \<Rightarrow> char" where
  "toLowerChar c =
     (let n = (of_char c :: nat)
      in if (65 \<le> n \<and> n \<le> 90) \<or> (192 \<le> n \<and> n \<le> 222 \<and> n \<noteq> 215)
         then char_of (n + 32) else c)"

definition toLowerCase :: "string \<Rightarrow> string" where
  "toLowerCase s = map toLowerChar s"

definition isSpace :: "char \<Rightarrow> bool" where
  "isSpace c = ((of_char c :: nat) \<in> {9, 10, 11, 12, 13, 32, 160})"

definition isWordChar :: "char \<Rightarrow> bool" where
  "isWordChar c =
     (let n = (of_char c :: nat)
      in (48 \<le> n \<and> n \<le> 57) \<or> (65 \<le> n \<and> n \<le> 90) \<or> n = 95 \<or> (97 \<le> n \<and> n \<le> 122))"

text \<open>
  \<^verbatim>\<open>.replace(/\s+/g, ' ')\<close>: every maximal run of white space becomes one space. The flag
  says that the previous character belonged to a run already replaced.
\<close>

fun collapseWhitespace :: "bool \<Rightarrow> string \<Rightarrow> string" where
  "collapseWhitespace inRun [] = []"
| "collapseWhitespace inRun (c # cs) =
     (if isSpace c
      then (if inRun then collapseWhitespace True cs
            else CHR '' '' # collapseWhitespace True cs)
      else c # collapseWhitespace False cs)"

definition keptChar :: "char \<Rightarrow> bool" where
  "keptChar c =
     (isWordChar c \<or> isSpace c \<or> c = CHR ''.'' \<or> (of_char c :: nat) \<in> {177, 176, 216})"

definition trim :: "string \<Rightarrow> string" where
  "trim s = rev (dropWhile isSpace (rev (dropWhile isSpace s)))"

definition cleanText :: "string \<Rightarrow> string" where
  "cleanText text = trim (filter keptChar (collapseWhitespace False (toLowerCase text)))"

text \<open>
  \<^verbatim>\<open>s.includes(sub)\<close>: \<open>sub\<close> occurs in \<open>s\<close> as a contiguous piece (the name \<open>includes\<close>
  is reserved in Isabelle).
\<close>

fun includesStr :: "string \<Rightarrow> string \<Rightarrow> bool" where
  "includesStr [] sub = (sub = [])"
| "includesStr (c # s) sub = (prefix sub (c # s) \<or> includesStr s sub)"

text \<open>
  \<^verbatim>\<open>
  function levenshteinDistance(str1: string, str2: string): number {
    const matrix: number[][] = [];
    for (let i = 0; i <= str2.length; i++) matrix[i] = [i];
    for (let j = 0; j <= str1.length; j++) matrix[0][j] = j;
    for (let i = 1; i <= str2.length; i++)
      for (let j = 1; j <= str1.length; j++)
        if (str2.charAt(i - 1) === str1.charAt(j - 1)) matrix[i][j] = matrix[i - 1][j - 1];
        else matrix[i][j] = Math.min(matrix[i - 1][j - 1] + 1,
                                     matrix[i][j - 1] + 1,
                                     matrix[i - 1][j] + 1);
    return matrix[str2.length][str1.length];
  }
  \<close>
  Row \<open>i\<close> of the matrix depends on row \<open>i - 1\<close> only. \<open>fillRow\<close> computes the entries
  \<open>j \<ge> 1\<close> of a row from the character \<^verbatim>\<open>str2.charAt(i - 1)\<close>, the rest of \<open>str1\<close>, the
  previous row from entry \<open>j - 1\<close> on, and the entry to the left; \<open>matrixRows\<close> runs over
  the characters of \<open>str2\<close> and returns the last row.
\<close>

fun fillRow :: "char \<Rightarrow> string \<Rightarrow> nat list \<Rightarrow> nat \<Rightarrow> nat list" where
  "fillRow c (d # ds) (diag # up # prev) left =
     (let v = (if c = d then diag else min (diag + 1) (min (left + 1) (up + 1)))
      in v # fillRow c ds (up # prev) v)"
| "fillRow c ds prev left = []"

fun matrixRows :: "string \<Rightarrow> string \<Rightarrow> nat list \<Rightarrow> nat \<Rightarrow> nat list" where
  "matrixRows str1 [] prev i = prev"
| "matrixRows str1 (c # cs) prev i = matrixRows str1 cs (i # fillRow c str1 prev i) (i + 1)"

definition levenshteinDistance :: "string \<Rightarrow> string \<Rightarrow> nat" where
  "levenshteinDistance str1 str2 = last (matrixRows str1 str2 [0 ..< length str1 + 1] 1)"

text \<open>
  \<^verbatim>\<open>
  function calculateSimilarity(str1: string, str2: string): number {
    const longer = str1.length > str2.length ? str1 : str2;
    const shorter = str1.length > str2.length ? str2 : str1;
    if (longer.length === 0) return 1.0;
    const editDistance = levenshteinDistance(longer, shorter);
    return (longer.length - editDistance) / longer.length;
  }
  \<close>
\<close>

definition calculateSimilarity :: "string \<Rightarrow> string \<Rightarrow> real" where
  "calculateSimilarity str1 str2 =
     (let longer = (if length str1 > length str2 then str1 else str2);
          shorter = (if length str1 > length str2 then str2 else str1)
      in if length longer = 0 then 1
         else (real (length longer) - real (levenshteinDistance longer shorter))
                / real (length longer))"

text \<open>
  \<^verbatim>\<open>
  export function findTextPosition(searchText, pdfPages, minConfidence = 0.7) {
    let bestMatch: TextMatch | null = null;
    let bestSimilarity = 0;
    const cleanSearch = cleanText(searchText);
    for (const pageInfo of pdfPages) {
      for (const textItem of pageInfo.textItems) {
        const cleanItem = cleanText(textItem.text);
        if (cleanItem === cleanSearch) {
          return { text: textItem.text, page: pageInfo.pageNumber - 1, x: textItem.x,
                   y: textItem.y, width: textItem.width, height: textItem.height,
                   confidence: 1.0 };
        }
        if (cleanItem.includes(cleanSearch) || cleanSearch.includes(cleanItem)) {
          const similarity = Math.max(cleanSearch.length / cleanItem.length,
                                      cleanItem.length / cleanSearch.length);
          if (similarity > bestSimilarity && similarity >= minConfidence) {
            bestSimilarity = similarity;
            bestMatch = { ..., confidence: similarity };
          }
        }
        const similarity = calculateSimilarity(cleanSearch, cleanItem);
        if (similarity > bestSimilarity && similarity >= minConfidence) {
          bestSimilarity = similarity;
          bestMatch = { ..., confidence: similarity };
        }
      }
    }
    return bestMatch;
  }
  \<close>
  The two nested loops visit the pairs of a page and one of its items, pages in order and
  items in order: \<open>scanOrder\<close> lists them. \<open>scanItems\<close> is the loop, with the two
  variables \<open>bestMatch\<close> and \<open>bestSimilarity\<close> as arguments; \<open>substringSimilarity\<close> is the
  \<^verbatim>\<open>Math.max\<close> expression and \<open>keepBetter\<close> the update that appears twice.
\<close>

definition matchAt :: "PDFPageInfo \<Rightarrow> PDFTextItem \<Rightarrow> jsnum \<Rightarrow> TextMatch" where
  "matchAt pageInfo textItem c =
     \<lparr> tm_text = ti_text textItem, tm_page = pg_pageNumber pageInfo - 1,
       tm_x = ti_x textItem, tm_y = ti_y textItem,
       tm_width = ti_width textItem, tm_height = ti_height textItem,
       tm_confidence = c \<rparr>"

definition substringSimilarity :: "string \<Rightarrow> string \<Rightarrow> jsnum" where
  "substringSimilarity cleanSearch cleanItem =
     jsMax (jsDiv (real (length cleanSearch)) (real (length cleanItem)))
           (jsDiv (real (length cleanItem)) (real (length cleanSearch)))"

definition keepBetter ::
  "PDFPageInfo \<Rightarrow> PDFTextItem \<Rightarrow> real \<Rightarrow> jsnum \<Rightarrow> TextMatch option \<times> jsnum
     \<Rightarrow> TextMatch option \<times> jsnum" where
  "keepBetter pageInfo textItem minConfidence similarity best =
     (if jsLess (snd best) similarity \<and> jsLessEq (Num minConfidence) similarity
      then (Some (matchAt pageInfo textItem similarity), similarity)
      else best)"

fun scanItems ::
  "string \<Rightarrow> real \<Rightarrow> (PDFPageInfo \<times> PDFTextItem) list \<Rightarrow> TextMatch option \<times> jsnum
     \<Rightarrow> TextMatch option" where
  "scanItems cleanSearch minConfidence [] best = fst best"
| "scanItems cleanSearch minConfidence ((pageInfo, textItem) # rest) best =
     (let cleanItem = cleanText (ti_text textItem)
      in if cleanItem = cleanSearch then Some (matchAt pageInfo textItem (Num 1))
         else
           let best1 =
                 (if includesStr cleanItem cleanSearch \<or> includesStr cleanSearch cleanItem
                  then keepBetter pageInfo textItem minConfidence
                         (substringSimilarity cleanSearch cleanItem) best
                  else best);
               best2 = keepBetter pageInfo textItem minConfidence
                         (Num (calculateSimilarity cleanSearch cleanItem)) best1
           in scanItems cleanSearch minConfidence rest best2)"

definition scanOrder :: "PDFPageInfo list \<Rightarrow> (PDFPageInfo \<times> PDFTextItem) list" where
  "scanOrder pdfPages = concat (map (\<lambda>pageInfo. map (Pair pageInfo) (pg_textItems pageInfo)) pdfPages)"

definition findTextPosition :: "string \<Rightarrow> PDFPageInfo list \<Rightarrow> real \<Rightarrow> TextMatch option" where
  "findTextPosition searchText pdfPages minConfidence =
     scanItems (cleanText searchText) minConfidence (scanOrder pdfPages) (None, Num 0)"


section \<open>Type-specific matchers\<close>

text \<open>
  \<^verbatim>\<open>
  export function findDimensionPosition(description, nominalValue, tolerancePlus,
                                        toleranceMinus, unit, pdfPages) {
    const searchPatterns: string[] = [];
    if (nominalValue !== undefined && nominalValue !== 0) {
      if (tolerancePlus && toleranceMinus) {
        searchPatterns.push(`${nominalValue} <plus-minus>${tolerancePlus}`);
        searchPatterns.push(`${nominalValue}<plus-minus>${tolerancePlus}`);
        searchPatterns.push(`${nominalValue} +${tolerancePlus} -${toleranceMinus}`);
      }
      searchPatterns.push(nominalValue.toString());
    }
    searchPatterns.push(description);
    for (const pattern of searchPatterns) {
      const match = findTextPosition(pattern, pdfPages, 0.6);
      if (match) return match;
    }
    return null;
  }
  \<close>
  The optional numbers are \<^typ>\<open>real option\<close>. The decimal text that JavaScript gives a
  number (\<^verbatim>\<open>Number.prototype.toString\<close>, also used by the template literals) belongs to
  the language, not to the repository: it is the parameter \<open>numberToString\<close>.
\<close>

definition plusMinus :: char where
  "plusMinus = CHR 0xB1"

definition dimensionPatterns ::
  "(real \<Rightarrow> string) \<Rightarrow> string \<Rightarrow> real option \<Rightarrow> real option \<Rightarrow> real option
     \<Rightarrow> string list" where
  "dimensionPatterns numberToString description nominalValue tolerancePlus toleranceMinus =
     (case nominalValue of
        None \<Rightarrow> []
      | Some n \<Rightarrow>
          if n \<noteq> 0
          then (case (tolerancePlus, toleranceMinus) of
                  (Some tp, Some tm) \<Rightarrow>
                    if tp \<noteq> 0 \<and> tm \<noteq> 0
                    then [numberToString n @ '' '' @ [plusMinus] @ numberToString tp,
                          numberToString n @ [plusMinus] @ numberToString tp,
                          numberToString n @ '' +'' @ numberToString tp
                            @ '' -'' @ numberToString tm]
                    else []
                | _ \<Rightarrow> [])
               @ [numberToString n]
          else [])
     @ [description]"

fun firstMatch :: "string list \<Rightarrow> PDFPageInfo list \<Rightarrow> real \<Rightarrow> TextMatch option" where
  "firstMatch [] pdfPages minConfidence = None"
| "firstMatch (pattern # rest) pdfPages minConfidence =
     (case findTextPosition pattern pdfPages minConfidence of
        Some match \<Rightarrow> Some match
      | None \<Rightarrow> firstMatch rest pdfPages minConfidence)"

definition findDimensionPosition ::
  "(real \<Rightarrow> string) \<Rightarrow> string \<Rightarrow> real option \<Rightarrow> real option \<Rightarrow> real option
     \<Rightarrow> string option \<Rightarrow> PDFPageInfo list \<Rightarrow> TextMatch option" where
  "findDimensionPosition numberToString description nominalValue tolerancePlus toleranceMinus
       unit pdfPages =
     firstMatch
       (dimensionPatterns numberToString description nominalValue tolerancePlus toleranceMinus)
       pdfPages (6 / 10)"

text \<open>
  \<^verbatim>\<open>
  export function findGDTPosition(description, gdtType, pdfPages) {
    const searchPatterns: string[] = [];
    if (gdtType) searchPatterns.push(gdtType);
    searchPatterns.push(description);
    for (const pattern of searchPatterns) {
      const match = findTextPosition(pattern, pdfPages, 0.7);
      if (match) return match;
    }
    return null;
  }
  export function findNotePosition(description, pdfPages) {
    return findTextPosition(description, pdfPages, 0.8);
  }
  \<close>
  An optional string is truthy when it is present and not empty.
\<close>

definition truthyString :: "string option \<Rightarrow> bool" where
  "truthyString v = (case v of None \<Rightarrow> False | Some t \<Rightarrow> t \<noteq> [])"

definition findGDTPosition ::
  "string \<Rightarrow> string option \<Rightarrow> PDFPageInfo list \<Rightarrow> TextMatch option" where
  "findGDTPosition description gdtType pdfPages =
     firstMatch
       ((case gdtType of None \<Rightarrow> [] | Some g \<Rightarrow> if g \<noteq> [] then [g] else []) @ [description])
       pdfPages (7 / 10)"

definition findNotePosition :: "string \<Rightarrow> PDFPageInfo list \<Rightarrow> TextMatch option" where
  "findNotePosition description pdfPages = findTextPosition description pdfPages (8 / 10)"

text \<open>
  The candidate list as the specification words it, for a dimension whose nominal value
  and two tolerances are given, and the first success over a list of queries.
\<close>

definition specDimensionCandidates ::
  "(real \<Rightarrow> string) \<Rightarrow> real \<Rightarrow> real \<Rightarrow> real \<Rightarrow> string \<Rightarrow> string list" where
  "specDimensionCandidates numberToString nominal tolPlus tolMinus description =
     [numberToString nominal @ '' '' @ [plusMinus] @ numberToString tolPlus,
      numberToString nominal @ [plusMinus] @ numberToString tolPlus,
      numberToString nominal @ '' +'' @ numberToString tolPlus @ '' -'' @ numberToString tolMinus,
      numberToString nominal,
      description]"

definition firstSuccess :: "string list \<Rightarrow> PDFPageInfo list \<Rightarrow> real \<Rightarrow> TextMatch option" where
  "firstSuccess queries pdfPages minConfidence =
     (case filter (\<lambda>q. findTextPosition q pdfPages minConfidence \<noteq> None) queries of
        [] \<Rightarrow> None
      | q # _ \<Rightarrow> findTextPosition q pdfPages minConfidence)"

text \<open>
  The candidate list with the guards of the code: the three tolerance forms only when the
  nominal value is present and not zero and both tolerances are present and not zero, the
  bare nominal value only when it is present and not zero, then the description.
\<close>

definition guardedDimensionCandidates ::
  "(real \<Rightarrow> string) \<Rightarrow> real option \<Rightarrow> real option \<Rightarrow> real option \<Rightarrow> string
     \<Rightarrow> string list" where
  "guardedDimensionCandidates numberToString nominal tolPlus tolMinus description =
     (if nominal \<noteq> None \<and> nominal \<noteq> Some 0
      then (if tolPlus \<noteq> None \<and> tolPlus \<noteq> Some 0 \<and> tolMinus \<noteq> None \<and> tolMinus \<noteq> Some 0
            then take 3 (specDimensionCandidates numberToString (the nominal) (the tolPlus)
                           (the tolMinus) description)
            else [])
           @ [numberToString (the nominal)]
      else [])
     @ [description]"

text \<open>
  A page of 800 by 600 points with page number 1 and one text item at
  \<open>(100, 200)\<close>, 40 wide and 10 high; and a table of the decimal texts of the numbers
  0, 0.1 and 10.5, which are what \<^verbatim>\<open>Number.prototype.toString\<close> gives for them.
\<close>

definition itemAt :: "string \<Rightarrow> PDFTextItem" where
  "itemAt t =
     \<lparr> ti_text = t, ti_page = 1, ti_x = 100, ti_y = 200, ti_width = 40, ti_height = 10 \<rparr>"

definition pageWith :: "string list \<Rightarrow> PDFPageInfo" where
  "pageWith ts =
     \<lparr> pg_pageNumber = 1, pg_width = 800, pg_height = 600, pg_textItems = map itemAt ts \<rparr>"

definition sampleNumberToString :: "real \<Rightarrow> string" where
  "sampleNumberToString r =
     (if r = 0 then ''0'' else if r = 1 / 10 then ''0.1'' else if r = 21 / 2 then ''10.5''
      else ''?'')"


section \<open>Annotation generation\<close>

text \<open>
  \<open>generateAnnotations\<close> (the source is quoted piecewise below) reads the characteristics,
  calls its collaborators and assigns \<^verbatim>\<open>char.location\<close>. Its model takes the
  characteristics as a list and returns the result object together with the list after the
  call. The objects of the array are distinct, so a characteristic is identified by its
  index, which is also how the map \<^verbatim>\<open>locationMatches\<close> (keyed by object) is modelled. A
  thrown value is its text. The collaborators are the fields of \<open>collaborators\<close>: each
  returns either a thrown value or its result. Logging is left out.

\<close>

text \<open>
  Modelled from the spec: the interface \<^verbatim>\<open>ExtractedCharacteristic\<close> is declared in the
  module \<^verbatim>\<open>gemini\<close>, which is not among the sources. The data model of the specification
  gives a characteristic a requirement type (one of dimension, gdt, note, material, process,
  functional; a string in the code, which compares it with these names), a description,
  the optional nominal value, tolerances, unit and GD&T type, an optional location
  (x, y, width, height as fractions of the page, a 0-indexed page and a confidence) and an
  optional zone code.
\<close>

type_synonym thrown = string

record Location =
  loc_x :: jsnum
  loc_y :: jsnum
  loc_width :: jsnum
  loc_height :: jsnum
  loc_page :: int
  loc_confidence :: jsnum

record ExtractedCharacteristic =
  ch_description :: string
  ch_requirementType :: string
  ch_gdtType :: "string option"
  ch_nominalValue :: "real option"
  ch_tolerancePlus :: "real option"
  ch_toleranceMinus :: "real option"
  ch_unit :: "string option"
  ch_location :: "Location option"
  ch_drawingZone :: "string option"

record AnnotationBox =
  ab_x :: real
  ab_y :: real
  ab_width :: real
  ab_height :: real
  ab_type :: string
  ab_text :: string
  ab_page :: int

record AnnotationRecord =
  ar_drawingId :: string
  ar_extractionKey :: string
  ar_page :: int
  ar_annotationType :: string
  ar_x :: real
  ar_y :: real
  ar_width :: real
  ar_height :: real
  ar_textSnippet :: string
  ar_aiConfidence :: jsnum
  ar_status :: string

datatype errorMsg =
    FailedToMatch string thrown
  | FailedToPersist thrown
  | FailedToGeneratePdf thrown
  | GenerationFailed thrown

record AnnotationGenerationResult =
  res_success :: bool
  res_annotatedPdfUrl :: "string option"
  res_annotationCount :: nat
  res_matchedCount :: nat
  res_errors :: "errorMsg list option"

record collaborators =
  numberToString :: "real \<Rightarrow> string"
  extractPDFTextPositions :: "string \<Rightarrow> thrown + PDFPageInfo list"
  dbInsert :: "AnnotationRecord list \<Rightarrow> thrown option"
  generateAnnotatedPDF :: "string \<Rightarrow> AnnotationBox list \<Rightarrow> thrown + string"
  uploadFile :: "string \<Rightarrow> string \<Rightarrow> thrown + string"
  dbUpdateUrl :: "string \<Rightarrow> string \<Rightarrow> thrown option"

text \<open>
  \<^verbatim>\<open>
  const CONFIDENCE_THRESHOLDS = { note: 0.8, material: 0.8, process: 0.8,
                                  dimension: 0.55, gdt: 0.55, functional: 0.7 };
  ...
  const threshold = CONFIDENCE_THRESHOLDS[char.requirementType] || 0.7;
  \<close>
  The lookup is a property access on an object literal. One of the six names gives its
  number (none of them is falsy). A name the object inherits from \<^verbatim>\<open>Object.prototype\<close>
  gives a function, or for \<^verbatim>\<open>__proto__\<close> the prototype itself: a truthy value, so the
  default is not taken, and the comparison \<^verbatim>\<open>match.confidence >= threshold\<close> converts it
  to NaN. Every other name gives \<^verbatim>\<open>undefined\<close> and so the default.
\<close>

definition CONFIDENCE_THRESHOLDS :: "(string \<times> real) list" where
  "CONFIDENCE_THRESHOLDS =
     [(''note'', 8 / 10), (''material'', 8 / 10), (''process'', 8 / 10),
      (''dimension'', 55 / 100), (''gdt'', 55 / 100), (''functional'', 7 / 10)]"

definition inheritedKeys :: "string list" where
  "inheritedKeys =
     [''constructor'', ''hasOwnProperty'', ''isPrototypeOf'', ''propertyIsEnumerable'',
      ''toLocaleString'', ''toString'', ''valueOf'', ''__proto__'', ''__defineGetter__'',
      ''__defineSetter__'', ''__lookupGetter__'', ''__lookupSetter__'']"

definition thresholdOf :: "string \<Rightarrow> jsnum" where
  "thresholdOf requirementType =
     (case map_of CONFIDENCE_THRESHOLDS requirementType of
        Some t \<Rightarrow> if t \<noteq> 0 then Num t else Num (7 / 10)
      | None \<Rightarrow> if requirementType \<in> set inheritedKeys then NaN else Num (7 / 10))"

text \<open>
  \<^verbatim>\<open>
  if (char.requirementType === 'dimension' && !char.gdtType) {
    match = findDimensionPosition(char.description, char.nominalValue, char.tolerancePlus,
                                  char.toleranceMinus, char.unit, pdfPages);
  } else if (char.gdtType) {
    match = findGDTPosition(char.description, char.gdtType, pdfPages);
  } else {
    match = findNotePosition(char.description, pdfPages);
  }
  \<close>
\<close>

definition routeMatch ::
  "(real \<Rightarrow> string) \<Rightarrow> ExtractedCharacteristic \<Rightarrow> PDFPageInfo list \<Rightarrow> TextMatch option" where
  "routeMatch toStr char pdfPages =
     (if ch_requirementType char = ''dimension'' \<and> \<not> truthyString (ch_gdtType char)
      then findDimensionPosition toStr (ch_description char) (ch_nominalValue char)
             (ch_tolerancePlus char) (ch_toleranceMinus char) (ch_unit char) pdfPages
      else if truthyString (ch_gdtType char)
      then findGDTPosition (ch_description char) (ch_gdtType char) pdfPages
      else findNotePosition (ch_description char) pdfPages)"

text \<open>
  \<^verbatim>\<open>
  let annotationType: AnnotationBox['type'] = 'dimension';
  if (char.gdtType) annotationType = 'gdt';
  else if (char.requirementType === 'material') annotationType = 'material';
  else if (char.requirementType === 'process') annotationType = 'process';
  else if (char.requirementType === 'note') annotationType = 'note';
  else if (char.requirementType === 'functional') annotationType = 'functional_test';
  \<close>
\<close>

definition annotationTypeOf :: "ExtractedCharacteristic \<Rightarrow> string" where
  "annotationTypeOf char =
     (if truthyString (ch_gdtType char) then ''gdt''
      else if ch_requirementType char = ''material'' then ''material''
      else if ch_requirementType char = ''process'' then ''process''
      else if ch_requirementType char = ''note'' then ''note''
      else if ch_requirementType char = ''functional'' then ''functional_test''
      else ''dimension'')"

text \<open>
  The matching loop, \<^verbatim>\<open>for (let i = 0; i < characteristics.length; i++)\<close>: a match is
  recorded when \<^verbatim>\<open>match && match.confidence >= threshold\<close>. The loop then does
  \<^verbatim>\<open>locationMatches.set(char, match)\<close>, pushes one annotation box and one annotation record
  and counts the match; it does not touch the characteristic. \<open>matchAll\<close> returns the
  recorded matches in order, each with the index of its characteristic and its annotation
  type; the boxes, the records and the count are read off that list. Nothing in the body
  of the loop throws on well-typed input, so its \<^verbatim>\<open>catch\<close> is not a branch of the model.
\<close>

fun matchAll ::
  "(real \<Rightarrow> string) \<Rightarrow> PDFPageInfo list \<Rightarrow> nat \<Rightarrow> ExtractedCharacteristic list
     \<Rightarrow> (nat \<times> TextMatch \<times> string) list" where
  "matchAll toStr pdfPages i [] = []"
| "matchAll toStr pdfPages i (char # rest) =
     (case routeMatch toStr char pdfPages of
        None \<Rightarrow> matchAll toStr pdfPages (i + 1) rest
      | Some match \<Rightarrow>
          if jsLessEq (thresholdOf (ch_requirementType char)) (tm_confidence match)
          then (i, match, annotationTypeOf char) # matchAll toStr pdfPages (i + 1) rest
          else matchAll toStr pdfPages (i + 1) rest)"

definition annotationBoxOf :: "nat \<times> TextMatch \<times> string \<Rightarrow> AnnotationBox" where
  "annotationBoxOf entry =
     (case entry of (i, match, annotationType) \<Rightarrow>
        \<lparr> ab_x = tm_x match, ab_y = tm_y match, ab_width = tm_width match,
          ab_height = tm_height match, ab_type = annotationType, ab_text = tm_text match,
          ab_page = tm_page match \<rparr>)"

definition annotationRecordOf :: "string \<Rightarrow> nat \<times> TextMatch \<times> string \<Rightarrow> AnnotationRecord" where
  "annotationRecordOf drawingId entry =
     (case entry of (i, match, annotationType) \<Rightarrow>
        \<lparr> ar_drawingId = drawingId, ar_extractionKey = showNat i, ar_page = tm_page match,
          ar_annotationType = annotationType, ar_x = tm_x match, ar_y = tm_y match,
          ar_width = tm_width match, ar_height = tm_height match,
          ar_textSnippet = tm_text match, ar_aiConfidence = tm_confidence match,
          ar_status = ''ai_generated'' \<rparr>)"

text \<open>The records that the matching loop has pushed when it ends.\<close>

definition annotationRecords ::
  "(real \<Rightarrow> string) \<Rightarrow> string \<Rightarrow> PDFPageInfo list \<Rightarrow> ExtractedCharacteristic list
     \<Rightarrow> AnnotationRecord list" where
  "annotationRecords toStr drawingId pdfPages characteristics =
     map (annotationRecordOf drawingId) (matchAll toStr pdfPages 0 characteristics)"

text \<open>
  \<^verbatim>\<open>
  for (const [char, match] of Array.from(locationMatches.entries())) {
    const pageInfo = pdfPages.find(p => p.pageNumber === match.page + 1);
    if (!pageInfo) { console.error(...); continue; }
    char.location = { x: match.x / pageInfo.width, y: match.y / pageInfo.height,
                      width: match.width / pageInfo.width,
                      height: match.height / pageInfo.height,
                      page: match.page, confidence: match.confidence };
    ...   // a warning when a value is outside [0, 1]
  }
  \<close>
\<close>

definition locationOf :: "TextMatch \<Rightarrow> PDFPageInfo \<Rightarrow> Location" where
  "locationOf match pageInfo =
     \<lparr> loc_x = jsDiv (tm_x match) (pg_width pageInfo),
       loc_y = jsDiv (tm_y match) (pg_height pageInfo),
       loc_width = jsDiv (tm_width match) (pg_width pageInfo),
       loc_height = jsDiv (tm_height match) (pg_height pageInfo),
       loc_page = tm_page match, loc_confidence = tm_confidence match \<rparr>"

fun assignLocations ::
  "PDFPageInfo list \<Rightarrow> (nat \<times> TextMatch \<times> string) list \<Rightarrow> ExtractedCharacteristic list
     \<Rightarrow> ExtractedCharacteristic list" where
  "assignLocations pdfPages [] characteristics = characteristics"
| "assignLocations pdfPages ((i, match, annotationType) # rest) characteristics =
     (case find (\<lambda>p. pg_pageNumber p = tm_page match + 1) pdfPages of
        None \<Rightarrow> assignLocations pdfPages rest characteristics
      | Some pageInfo \<Rightarrow>
          assignLocations pdfPages rest
            (characteristics[i := (characteristics ! i)
               \<lparr> ch_location := Some (locationOf match pageInfo) \<rparr>]))"

text \<open>
  \<^verbatim>\<open>
  let annotatedPdfUrl: string | undefined;
  if (annotations.length > 0) {
    try {
      const annotatedBuffer = await pdfAnnotator.generateAnnotatedPDF(pdfBuffer, annotations);
      annotatedPdfUrl = await objectStorageService.uploadFile(annotatedBuffer,
                          `drawings/${drawingId}_annotated.pdf`, 'application/pdf');
      await db.update(drawings).set({ annotatedPdfUrl }).where(eq(drawings.id, drawingId));
    } catch (error) {
      errors.push(`Failed to generate/upload annotated PDF: ${error}`);
    }
  }
  \<close>
  The result is the value of \<^verbatim>\<open>annotatedPdfUrl\<close> and the messages pushed.
\<close>

definition renderAndUpload ::
  "collaborators \<Rightarrow> string \<Rightarrow> string \<Rightarrow> AnnotationBox list \<Rightarrow> string option \<times> errorMsg list" where
  "renderAndUpload env drawingId pdfBuffer annotations =
     (if annotations = [] then (None, [])
      else case generateAnnotatedPDF env pdfBuffer annotations of
        Inl e \<Rightarrow> (None, [FailedToGeneratePdf e])
      | Inr annotatedBuffer \<Rightarrow>
          (case uploadFile env annotatedBuffer (''drawings/'' @ drawingId @ ''_annotated.pdf'') of
             Inl e \<Rightarrow> (None, [FailedToGeneratePdf e])
           | Inr url \<Rightarrow>
               (case dbUpdateUrl env drawingId url of
                  Some e \<Rightarrow> (Some url, [FailedToGeneratePdf e])
                | None \<Rightarrow> (Some url, []))))"

text \<open>
  \<^verbatim>\<open>
  export async function generateAnnotations(drawingId, pdfBuffer, characteristics,
                                            objectStorageService) {
    const errors: string[] = [];
    try {
      const pdfPages = await extractPDFTextPositions(pdfBuffer);
      ...                                     // the matching loop
      if (annotationRecords.length > 0) {
        try {
          await db.insert(drawingAnnotations).values(annotationRecords);
          ...                                 // the assignments of char.location
        } catch (error) {
          errors.push(`Failed to persist annotation records: ${error}`);
          throw error;
        }
      }
      ...                                     // the annotated PDF, best effort
      return { success: true, annotatedPdfUrl, annotationCount: annotationRecords.length,
               matchedCount, errors: errors.length > 0 ? errors : undefined };
    } catch (error) {
      errors.push(`Annotation generation failed: ${error}`);
      return { success: false, annotationCount: 0, matchedCount: 0, errors };
    }
  }
  \<close>
\<close>

definition failed :: "errorMsg list \<Rightarrow> AnnotationGenerationResult" where
  "failed errs =
     \<lparr> res_success = False, res_annotatedPdfUrl = None, res_annotationCount = 0,
       res_matchedCount = 0, res_errors = Some errs \<rparr>"

definition generateAnnotations ::
  "collaborators \<Rightarrow> string \<Rightarrow> string \<Rightarrow> ExtractedCharacteristic list
     \<Rightarrow> AnnotationGenerationResult \<times> ExtractedCharacteristic list" where
  "generateAnnotations env drawingId pdfBuffer characteristics =
     (case extractPDFTextPositions env pdfBuffer of
        Inl e \<Rightarrow> (failed [GenerationFailed e], characteristics)
      | Inr pdfPages \<Rightarrow>
          let matches = matchAll (numberToString env) pdfPages 0 characteristics;
              annotations = map annotationBoxOf matches;
              records = map (annotationRecordOf drawingId) matches;
              matchedCount = length matches
          in case (if records \<noteq> [] then dbInsert env records else None) of
               Some e \<Rightarrow> (failed [FailedToPersist e, GenerationFailed e], characteristics)
             | None \<Rightarrow>
                 let characteristics' =
                       (if records \<noteq> [] then assignLocations pdfPages matches characteristics
                        else characteristics);
                     (annotatedPdfUrl, errs) = renderAndUpload env drawingId pdfBuffer annotations
                 in (\<lparr> res_success = True, res_annotatedPdfUrl = annotatedPdfUrl,
                        res_annotationCount = length records, res_matchedCount = matchedCount,
                        res_errors = (if errs \<noteq> [] then Some errs else None) \<rparr>,
                     characteristics'))"


section \<open>Perimeter layout\<close>

text \<open>
  \<^verbatim>\<open>
  function computePerimeterBalloonLayout(balloonNumber, totalBalloons, pageWidth, pageHeight) {
    const MARGIN_FROM_EDGE = 40;  const TOP_MARGIN = 120;  const BOTTOM_MARGIN = 80;
    const MIN_BALLOON_SPACING = 25;  const PREFERRED_BALLOON_SPACING = 35;
    const availableHeight = pageHeight - TOP_MARGIN - BOTTOM_MARGIN;
    const maxBalloonsPerColumn = Math.floor(availableHeight / MIN_BALLOON_SPACING) + 1;
    const numColumns = (totalBalloons > maxBalloonsPerColumn * 2) ? 4 : 2;
    const balloonsPerColumn = Math.ceil(totalBalloons / numColumns);
    ...                                           // a warning
    const columnNumber = (balloonNumber - 1) % numColumns;
    const columnIndex = Math.floor((balloonNumber - 1) / numColumns);
    let balloonSpacing = PREFERRED_BALLOON_SPACING;
    if (balloonsPerColumn > 1) {
      const requiredSpacing = availableHeight / (balloonsPerColumn - 1);
      balloonSpacing = Math.max(MIN_BALLOON_SPACING,
                                Math.min(PREFERRED_BALLOON_SPACING, requiredSpacing));
    }
    let xPosition: number;  let side: 'left' | 'right';
    if (numColumns === 2) {
      xPosition = columnNumber === 0 ? MARGIN_FROM_EDGE : pageWidth - MARGIN_FROM_EDGE;
      side = columnNumber === 0 ? 'left' : 'right';
    } else {
      const columnPositions = [MARGIN_FROM_EDGE, pageWidth * 0.25, pageWidth * 0.75,
                               pageWidth - MARGIN_FROM_EDGE];
      xPosition = columnPositions[columnNumber];
      side = columnNumber < 2 ? 'left' : 'right';
    }
    const yPosition = TOP_MARGIN + (columnIndex * balloonSpacing);
    const maxYPosition = pageHeight - BOTTOM_MARGIN;
    const clampedYPosition = Math.min(yPosition, maxYPosition);
    ...                                           // a warning
    return { xPosition, yPosition: clampedYPosition, side };
  }
  \<close>
  The balloon number is an integer and the total a count; the page size is finite. The
  remainder \<^verbatim>\<open>%\<close> takes the sign of the dividend. In the layout of four columns a column
  number outside 0..3 (a balloon number below 1) reads \<^verbatim>\<open>columnPositions\<close> outside the
  array, and the object returned has no \<^verbatim>\<open>xPosition\<close>: the model returns \<open>None\<close> then.
\<close>

record PerimeterPosition =
  pp_xPosition :: real
  pp_yPosition :: real
  pp_side :: horizontalDir

definition jsRem :: "int \<Rightarrow> int \<Rightarrow> int" where
  "jsRem a b = sgn a * (\<bar>a\<bar> mod \<bar>b\<bar>)"

definition MARGIN_FROM_EDGE :: real where "MARGIN_FROM_EDGE = 40"
definition TOP_MARGIN :: real where "TOP_MARGIN = 120"
definition BOTTOM_MARGIN :: real where "BOTTOM_MARGIN = 80"
definition MIN_BALLOON_SPACING :: real where "MIN_BALLOON_SPACING = 25"
definition PREFERRED_BALLOON_SPACING :: real where "PREFERRED_BALLOON_SPACING = 35"

definition computePerimeterBalloonLayout ::
  "int \<Rightarrow> real \<Rightarrow> real \<Rightarrow> real \<Rightarrow> PerimeterPosition option" where
  "computePerimeterBalloonLayout balloonNumber totalBalloons pageWidth pageHeight =
     (let availableHeight = pageHeight - TOP_MARGIN - BOTTOM_MARGIN;
          maxBalloonsPerColumn = \<lfloor>availableHeight / MIN_BALLOON_SPACING\<rfloor> + 1;
          numColumns = (if totalBalloons > real_of_int (maxBalloonsPerColumn * 2) then 4 else 2 :: int);
          balloonsPerColumn = \<lceil>totalBalloons / real_of_int numColumns\<rceil>;
          columnNumber = jsRem (balloonNumber - 1) numColumns;
          columnIndex = \<lfloor>real_of_int (balloonNumber - 1) / real_of_int numColumns\<rfloor>;
          balloonSpacing =
            (if balloonsPerColumn > 1
             then max MIN_BALLOON_SPACING
                    (min PREFERRED_BALLOON_SPACING
                       (availableHeight / real_of_int (balloonsPerColumn - 1)))
             else PREFERRED_BALLOON_SPACING);
          xPosition =
            (if numColumns = 2
             then Some (if columnNumber = 0 then MARGIN_FROM_EDGE else pageWidth - MARGIN_FROM_EDGE)
             else jsIndex [MARGIN_FROM_EDGE, pageWidth * 0.25, pageWidth * 0.75,
                           pageWidth - MARGIN_FROM_EDGE] columnNumber);
          side =
            (if numColumns = 2 then (if columnNumber = 0 then Left else Right)
             else (if columnNumber < 2 then Left else Right));
          yPosition = TOP_MARGIN + real_of_int columnIndex * balloonSpacing;
          maxYPosition = pageHeight - BOTTOM_MARGIN;
          clampedYPosition = min yPosition maxYPosition
      in case xPosition of
           None \<Rightarrow> None
         | Some xp \<Rightarrow>
             Some \<lparr> pp_xPosition = xp, pp_yPosition = clampedYPosition, pp_side = side \<rparr>)"


section \<open>Balloon placer\<close>

text \<open>
  \<open>computeSmartBalloonPlacement\<close> (lines 1740 to 1943 of the source). The two local
  functions \<^verbatim>\<open>isBlankSpace\<close> and \<^verbatim>\<open>isLeaderPathClear\<close> take the variables they close over
  as arguments. The result is a position with a side and the balloon diameter;
  \<open>withDiameter\<close> is the object \<^verbatim>\<open>{ ...perimeterPos, balloonDiameter: BALLOON_DIAMETER }\<close>.
\<close>

record Placement =
  pl_xPosition :: real
  pl_yPosition :: real
  pl_side :: horizontalDir
  pl_balloonDiameter :: real

definition withDiameter :: "real \<Rightarrow> PerimeterPosition \<Rightarrow> Placement" where
  "withDiameter diameter perimeterPos =
     \<lparr> pl_xPosition = pp_xPosition perimeterPos, pl_yPosition = pp_yPosition perimeterPos,
       pl_side = pp_side perimeterPos, pl_balloonDiameter = diameter \<rparr>"

record ExistingBalloon =
  eb_xPosition :: real
  eb_yPosition :: real
  eb_balloonDiameter :: real

record Box =
  bx_x :: real
  bx_y :: real
  bx_width :: real
  bx_height :: real

record Point =
  pt_x :: real
  pt_y :: real

record Bounds =
  bd_left :: real
  bd_right :: real
  bd_top :: real
  bd_bottom :: real

record Candidate =
  cd_x :: real
  cd_y :: real
  cd_side :: horizontalDir

definition MIN_TEXT_OFFSET :: real where "MIN_TEXT_OFFSET = 15"
definition PREFERRED_TEXT_OFFSET :: real where "PREFERRED_TEXT_OFFSET = 35"
definition MARGIN :: real where "MARGIN = 30"
definition TITLE_BLOCK_HEIGHT :: real where "TITLE_BLOCK_HEIGHT = 120"
definition BORDER_MARGIN :: real where "BORDER_MARGIN = 60"

text \<open>
  \<^verbatim>\<open>
  const drawingBounds = {
    left: drawingOrigin.x + BORDER_MARGIN,      right: pageWidth - BORDER_MARGIN,
    top: drawingOrigin.y + BORDER_MARGIN,       bottom: pageHeight - TITLE_BLOCK_HEIGHT - BORDER_MARGIN };
  \<close>
\<close>

definition drawingBoundsOf :: "Point \<Rightarrow> real \<Rightarrow> real \<Rightarrow> Bounds" where
  "drawingBoundsOf drawingOrigin pageWidth pageHeight =
     \<lparr> bd_left = pt_x drawingOrigin + BORDER_MARGIN,
       bd_right = pageWidth - BORDER_MARGIN,
       bd_top = pt_y drawingOrigin + BORDER_MARGIN,
       bd_bottom = pageHeight - TITLE_BLOCK_HEIGHT - BORDER_MARGIN \<rparr>"

text \<open>
  \<^verbatim>\<open>
  const isBlankSpace = (x: number, y: number): boolean => {
    const radius = BALLOON_DIAMETER / 2;
    if (x - radius < drawingBounds.left || x + radius > drawingBounds.right ||
        y - radius < drawingBounds.top || y + radius > drawingBounds.bottom) return false;
    if (x - radius < MARGIN || x + radius > pageWidth - MARGIN ||
        y - radius < MARGIN || y + radius > pageHeight - MARGIN) return false;
    for (const existing of existingBalloons) {
      const existingRadius = existing.balloonDiameter / 2;
      const distance = Math.hypot(x - existing.xPosition, y - existing.yPosition);
      const minDistance = radius + existingRadius + 5;
      if (distance < minDistance) return false;
    }
    for (const textItem of allTextItems) {
      const textLeft = textItem.x - 5;             const textRight = textItem.x + textItem.width + 5;
      const textTop = textItem.y - 5;              const textBottom = textItem.y + textItem.height + 5;
      const closestX = Math.max(textLeft, Math.min(x, textRight));
      const closestY = Math.max(textTop, Math.min(y, textBottom));
      const distance = Math.hypot(x - closestX, y - closestY);
      if (distance < radius) return false;
    }
    return true;
  };
  \<close>
\<close>

definition tooCloseToBalloon :: "real \<Rightarrow> real \<Rightarrow> real \<Rightarrow> ExistingBalloon \<Rightarrow> bool" where
  "tooCloseToBalloon radius x y existing =
     (let existingRadius = eb_balloonDiameter existing / 2;
          distance = hypot (x - eb_xPosition existing) (y - eb_yPosition existing);
          minDistance = radius + existingRadius + 5
      in distance < minDistance)"

definition overlapsText :: "real \<Rightarrow> real \<Rightarrow> real \<Rightarrow> Box \<Rightarrow> bool" where
  "overlapsText radius x y textItem =
     (let textLeft = bx_x textItem - 5;
          textRight = bx_x textItem + bx_width textItem + 5;
          textTop = bx_y textItem - 5;
          textBottom = bx_y textItem + bx_height textItem + 5;
          closestX = max textLeft (min x textRight);
          closestY = max textTop (min y textBottom);
          distance = hypot (x - closestX) (y - closestY)
      in distance < radius)"

definition isBlankSpace ::
  "real \<Rightarrow> Bounds \<Rightarrow> real \<Rightarrow> real \<Rightarrow> ExistingBalloon list \<Rightarrow> Box list \<Rightarrow> real \<Rightarrow> real
     \<Rightarrow> bool" where
  "isBlankSpace BALLOON_DIAMETER drawingBounds pageWidth pageHeight existingBalloons
       allTextItems x y =
     (let radius = BALLOON_DIAMETER / 2
      in if x - radius < bd_left drawingBounds \<or> x + radius > bd_right drawingBounds \<or>
            y - radius < bd_top drawingBounds \<or> y + radius > bd_bottom drawingBounds
         then False
         else if x - radius < MARGIN \<or> x + radius > pageWidth - MARGIN \<or>
                 y - radius < MARGIN \<or> y + radius > pageHeight - MARGIN
         then False
         else if list_ex (tooCloseToBalloon radius x y) existingBalloons then False
         else if list_ex (overlapsText radius x y) allTextItems then False
         else True)"

text \<open>
  \<^verbatim>\<open>
  const isLeaderPathClear = (balloonX, balloonY, targetX, targetY): boolean => {
    for (const existing of existingBalloons) {
      const existingRadius = existing.balloonDiameter / 2;
      const lineLength = Math.hypot(targetX - balloonX, targetY - balloonY);
      if (lineLength === 0) continue;
      const t = Math.max(0, Math.min(1,
        ((existing.xPosition - balloonX) * (targetX - balloonX) +
         (existing.yPosition - balloonY) * (targetY - balloonY)) / (lineLength * lineLength)));
      const projX = balloonX + t * (targetX - balloonX);
      const projY = balloonY + t * (targetY - balloonY);
      const distance = Math.hypot(existing.xPosition - projX, existing.yPosition - projY);
      if (distance < existingRadius + 3) return false;
    }
    return true;
  };
  \<close>
\<close>

definition leaderCrosses :: "real \<Rightarrow> real \<Rightarrow> real \<Rightarrow> real \<Rightarrow> ExistingBalloon \<Rightarrow> bool" where
  "leaderCrosses balloonX balloonY targetX targetY existing =
     (let existingRadius = eb_balloonDiameter existing / 2;
          lineLength = hypot (targetX - balloonX) (targetY - balloonY)
      in if lineLength = 0 then False
         else
           let t = max 0 (min 1
                     (((eb_xPosition existing - balloonX) * (targetX - balloonX) +
                       (eb_yPosition existing - balloonY) * (targetY - balloonY))
                        / (lineLength * lineLength)));
               projX = balloonX + t * (targetX - balloonX);
               projY = balloonY + t * (targetY - balloonY);
               distance = hypot (eb_xPosition existing - projX) (eb_yPosition existing - projY)
           in distance < existingRadius + 3)"

definition isLeaderPathClear ::
  "ExistingBalloon list \<Rightarrow> real \<Rightarrow> real \<Rightarrow> real \<Rightarrow> real \<Rightarrow> bool" where
  "isLeaderPathClear existingBalloons balloonX balloonY targetX targetY =
     (\<not> list_ex (leaderCrosses balloonX balloonY targetX targetY) existingBalloons)"

text \<open>
  The twelve candidate positions, in the order of the array literal of the source
  (\<^verbatim>\<open>centerY = textPosition.y + textPosition.height / 2\<close>,
  \<^verbatim>\<open>centerX = textPosition.x + textPosition.width / 2\<close>).
\<close>

definition candidatePositions :: "Box \<Rightarrow> Candidate list" where
  "candidatePositions textPosition =
     (let centerY = bx_y textPosition + bx_height textPosition / 2;
          centerX = bx_x textPosition + bx_width textPosition / 2;
          rightEdge = bx_x textPosition + bx_width textPosition
      in [\<lparr> cd_x = rightEdge + PREFERRED_TEXT_OFFSET, cd_y = centerY, cd_side = Right \<rparr>,
          \<lparr> cd_x = rightEdge + MIN_TEXT_OFFSET, cd_y = centerY, cd_side = Right \<rparr>,
          \<lparr> cd_x = bx_x textPosition - PREFERRED_TEXT_OFFSET, cd_y = centerY, cd_side = Left \<rparr>,
          \<lparr> cd_x = bx_x textPosition - MIN_TEXT_OFFSET, cd_y = centerY, cd_side = Left \<rparr>,
          \<lparr> cd_x = centerX + 10, cd_y = bx_y textPosition - PREFERRED_TEXT_OFFSET,
            cd_side = Right \<rparr>,
          \<lparr> cd_x = centerX + 10, cd_y = bx_y textPosition - MIN_TEXT_OFFSET, cd_side = Right \<rparr>,
          \<lparr> cd_x = centerX + 10,
            cd_y = bx_y textPosition + bx_height textPosition + PREFERRED_TEXT_OFFSET,
            cd_side = Right \<rparr>,
          \<lparr> cd_x = centerX + 10,
            cd_y = bx_y textPosition + bx_height textPosition + MIN_TEXT_OFFSET,
            cd_side = Right \<rparr>,
          \<lparr> cd_x = rightEdge + PREFERRED_TEXT_OFFSET, cd_y = centerY - 20, cd_side = Right \<rparr>,
          \<lparr> cd_x = rightEdge + PREFERRED_TEXT_OFFSET, cd_y = centerY + 20, cd_side = Right \<rparr>,
          \<lparr> cd_x = bx_x textPosition - PREFERRED_TEXT_OFFSET, cd_y = centerY - 20,
            cd_side = Left \<rparr>,
          \<lparr> cd_x = bx_x textPosition - PREFERRED_TEXT_OFFSET, cd_y = centerY + 20,
            cd_side = Left \<rparr>])"

text \<open>
  The second loop, \<^verbatim>\<open>for (let offsetY = 10; offsetY <= 100; offsetY += 10)\<close> inside the
  loop over the candidates: each candidate moved down and then up by each offset.
\<close>

definition verticalOffsets :: "real list" where
  "verticalOffsets = map (\<lambda>k. 10 * real k) [1 ..< 11]"

definition adjustedPositions :: "Candidate list \<Rightarrow> Candidate list" where
  "adjustedPositions candidates =
     concat (map (\<lambda>candidate.
       concat (map (\<lambda>offsetY.
         [candidate \<lparr> cd_y := cd_y candidate + offsetY \<rparr>,
          candidate \<lparr> cd_y := cd_y candidate - offsetY \<rparr>]) verticalOffsets)) candidates)"

text \<open>The test of both loops: blank space, and a clear leader to the centre of the text.\<close>

definition acceptable ::
  "real \<Rightarrow> Bounds \<Rightarrow> real \<Rightarrow> real \<Rightarrow> ExistingBalloon list \<Rightarrow> Box list \<Rightarrow> Box
     \<Rightarrow> Candidate \<Rightarrow> bool" where
  "acceptable BALLOON_DIAMETER drawingBounds pageWidth pageHeight existingBalloons allTextItems
       textPosition candidate =
     (let textCenterX = bx_x textPosition + bx_width textPosition / 2;
          textCenterY = bx_y textPosition + bx_height textPosition / 2
      in isBlankSpace BALLOON_DIAMETER drawingBounds pageWidth pageHeight existingBalloons
           allTextItems (cd_x candidate) (cd_y candidate) \<and>
         isLeaderPathClear existingBalloons (cd_x candidate) (cd_y candidate)
           textCenterX textCenterY)"

definition placementAt :: "Candidate \<Rightarrow> real \<Rightarrow> Placement" where
  "placementAt candidate diameter =
     \<lparr> pl_xPosition = cd_x candidate, pl_yPosition = cd_y candidate,
       pl_side = cd_side candidate, pl_balloonDiameter = diameter \<rparr>"

definition computeSmartBalloonPlacement ::
  "Box option \<Rightarrow> int \<Rightarrow> real \<Rightarrow> real \<Rightarrow> ExistingBalloon list \<Rightarrow> real \<Rightarrow> Box list \<Rightarrow> Point
     \<Rightarrow> Placement option" where
  "computeSmartBalloonPlacement textPosition balloonNumber pageWidth pageHeight existingBalloons
       totalCharacteristics allTextItems drawingOrigin =
     (let BALLOON_DIAMETER = calculateBalloonSize totalCharacteristics;
          drawingBounds = drawingBoundsOf drawingOrigin pageWidth pageHeight
      in case textPosition of
           None \<Rightarrow>
             map_option (withDiameter BALLOON_DIAMETER)
               (computePerimeterBalloonLayout balloonNumber totalCharacteristics pageWidth
                  pageHeight)
         | Some tp \<Rightarrow>
             let ok = acceptable BALLOON_DIAMETER drawingBounds pageWidth pageHeight
                        existingBalloons allTextItems tp
             in case find ok (candidatePositions tp) of
                  Some candidate \<Rightarrow> Some (placementAt candidate BALLOON_DIAMETER)
                | None \<Rightarrow>
                    (case find ok (adjustedPositions (candidatePositions tp)) of
                       Some candidate \<Rightarrow> Some (placementAt candidate BALLOON_DIAMETER)
                     | None \<Rightarrow>
                         map_option (withDiameter BALLOON_DIAMETER)
                           (computePerimeterBalloonLayout balloonNumber totalCharacteristics
                              pageWidth pageHeight)))"

text \<open>
  Two circles overlap when their centres are closer than the sum of the radii: the circle
  of a returned position and the circle of a balloon of the input.
\<close>

definition circlesOverlap :: "Placement \<Rightarrow> ExistingBalloon \<Rightarrow> bool" where
  "circlesOverlap p existing =
     (hypot (pl_xPosition p - eb_xPosition existing) (pl_yPosition p - eb_yPosition existing)
        < pl_balloonDiameter p / 2 + eb_balloonDiameter existing / 2)"


section \<open>Sample inputs\<close>

text \<open>
  The confidence range of the specification, and the concrete values at which the theorems
  below are instantiated: a dimension of nominal value 10.5 with both tolerances 0.1, the
  text \<open>10.5 \<plusminus>0.1\<close>, collaborators whose batch insert fails or succeeds, a text box and
  placed balloons.
\<close>

definition inUnitInterval :: "jsnum \<Rightarrow> bool" where
  "inUnitInterval c = (jsLessEq (Num 0) c \<and> jsLessEq c (Num 1))"

definition sampleDimension :: ExtractedCharacteristic where
  "sampleDimension =
     \<lparr> ch_description = ''hole diameter'', ch_requirementType = ''dimension'',
       ch_gdtType = None, ch_nominalValue = Some (21 / 2), ch_tolerancePlus = Some (1 / 10),
       ch_toleranceMinus = Some (1 / 10), ch_unit = Some ''mm'', ch_location = None,
       ch_drawingZone = None \<rparr>"

definition sampleDimensionText :: string where
  "sampleDimensionText = ''10.5 '' @ [plusMinus] @ ''0.1''"

definition sampleCollaborators :: "thrown option \<Rightarrow> collaborators" where
  "sampleCollaborators insertOutcome =
     \<lparr> numberToString = sampleNumberToString,
       extractPDFTextPositions = (\<lambda>pdfBuffer. Inr [pageWith [sampleDimensionText]]),
       dbInsert = (\<lambda>records. insertOutcome),
       generateAnnotatedPDF = (\<lambda>pdfBuffer annotations. Inr ''annotated''),
       uploadFile = (\<lambda>buffer path. Inr (''https://storage/'' @ path)),
       dbUpdateUrl = (\<lambda>drawingId url. None) \<rparr>"

definition sampleBox :: Box where
  "sampleBox = \<lparr> bx_x = 300, bx_y = 300, bx_width = 40, bx_height = 10 \<rparr>"

definition balloonAt :: "real \<Rightarrow> real \<Rightarrow> ExistingBalloon" where
  "balloonAt x y = \<lparr> eb_xPosition = x, eb_yPosition = y, eb_balloonDiameter = 24 \<rparr>"

definition origin :: Point where
  "origin = \<lparr> pt_x = 0, pt_y = 0 \<rparr>"


chapter \<open>Properties\<close>

section \<open>Auxiliary facts\<close>

lemma showNat_digit: "n < 10 \<Longrightarrow> showNat n = [''0123456789'' ! n]"
  by (simp add: showNat.simps)

lemma int_range8: "0 \<le> (i::int) \<Longrightarrow> i \<le> 7 \<Longrightarrow> i \<in> {0, 1, 2, 3, 4, 5, 6, 7}"
  by auto

lemma hypot_less_iff: "hypot a b < c \<longleftrightarrow> 0 < c \<and> a\<^sup>2 + b\<^sup>2 < c\<^sup>2"
proof (cases "0 < c")
  case True
  then have "sqrt (a\<^sup>2 + b\<^sup>2) < c \<longleftrightarrow> a\<^sup>2 + b\<^sup>2 < c\<^sup>2"
    by (metis real_sqrt_less_iff real_sqrt_abs abs_of_pos)
  with True show ?thesis by (simp add: hypot_def)
next
  case False
  have "0 \<le> hypot a b" by (simp add: hypot_def)
  with False show ?thesis by auto
qed

lemma hypot_zero_iff: "hypot a b = 0 \<longleftrightarrow> a = 0 \<and> b = 0"
  by (simp add: hypot_def add_nonneg_eq_0_iff)

lemma hypot_mult_self: "hypot a b * hypot a b = a\<^sup>2 + b\<^sup>2"
  by (simp add: hypot_def)

lemma char_of_eq: "(char_of (n::nat) = c) = (n mod 256 = of_char c)"
  by (metis of_char_of char_of_char)

lemmas text_eval =
  char_of_eq cleanText_def toLowerCase_def toLowerChar_def isSpace_def keptChar_def
  isWordChar_def trim_def plusMinus_def

lemmas match_eval =
  findTextPosition_def scanOrder_def pageWith_def itemAt_def substringSimilarity_def jsDiv_def
  keepBetter_def matchAt_def calculateSimilarity_def levenshteinDistance_def upt_rec

lemmas perimeter_eval =
  computePerimeterBalloonLayout_def withDiameter_def jsRem_def jsIndex_def MARGIN_FROM_EDGE_def TOP_MARGIN_def
  BOTTOM_MARGIN_def MIN_BALLOON_SPACING_def PREFERRED_BALLOON_SPACING_def

lemmas placer_eval =
  computeSmartBalloonPlacement_def calculateBalloonSize_def drawingBoundsOf_def
  candidatePositions_def adjustedPositions_def verticalOffsets_def acceptable_def
  isBlankSpace_def isLeaderPathClear_def tooCloseToBalloon_def overlapsText_def
  leaderCrosses_def placementAt_def MIN_TEXT_OFFSET_def PREFERRED_TEXT_OFFSET_def MARGIN_def
  TITLE_BLOCK_HEIGHT_def BORDER_MARGIN_def hypot_less_iff hypot_zero_iff hypot_mult_self
  sampleBox_def balloonAt_def origin_def Let_def upt_rec

lemmas zone_eval =
  calculateDrawingZone_def zoneText_def columnIndex_def rowIndex_def columns_def
  numRows_def jsIndex_def intToString_def showNat_digit


section \<open>Double arithmetic\<close>

text \<open>
  Powers of two with an integer exponent, the binade of a real, and the cases in which the
  rounding of a sum is known: an exact result that is a double is returned unchanged, and
  a summand below a quarter of the spacing of the doubles at a power of two is absorbed.
\<close>

lemma binade:
  assumes "2 powi k \<le> r" "r < 2 powi (k + 1)"
  shows "\<lfloor>log 2 r\<rfloor> = k"
proof -
  have "(0::real) < 2 powi k"
    by simp
  with assms(1) have pos: "0 < r"
    by linarith
  have p1: "(2::real) powr real_of_int k = 2 powi k"
    by (simp add: powr_real_of_int')
  have "(2::real) powr real_of_int (k + 1) = 2 powi (k + 1)"
    by (rule powr_real_of_int') simp_all
  then have p2: "(2::real) powr (real_of_int k + 1) = 2 powi (k + 1)"
    by simp
  show ?thesis
    using floor_log_eq_powr_iff [of r 2 k] pos assms by (simp add: p1 p2)
qed

lemma binade_less:
  assumes "0 < r" "r < 2 powi k"
  shows "\<lfloor>log 2 r\<rfloor> < k"
proof -
  have "log 2 r < real_of_int k"
    using assms by (simp add: log_less_iff powr_real_of_int')
  then show ?thesis
    by (simp add: floor_less_iff)
qed

lemma roundHalfEven_near:
  assumes "\<bar>q - of_int n\<bar> < 1 / 2"
  shows "roundHalfEven q = n"
proof (cases "of_int n \<le> q")
  case True
  with assms have "\<lfloor>q\<rfloor> = n" by (simp add: floor_eq_iff)
  with assms True show ?thesis by (simp add: roundHalfEven_def Let_def)
next
  case False
  with assms have "\<lfloor>q\<rfloor> = n - 1" by (auto simp: floor_eq_iff)
  with assms False show ?thesis by (auto simp: roundHalfEven_def Let_def)
qed

lemma roundHalfEven_le:
  assumes "q \<le> of_int n"
  shows "roundHalfEven q \<le> n"
proof (cases "q = of_int n")
  case True
  then show ?thesis using roundHalfEven_near [of q n] by simp
next
  case False
  with assms have "\<lfloor>q\<rfloor> < n" by (simp add: floor_less_iff)
  then show ?thesis by (simp add: roundHalfEven_def Let_def)
qed

lemma roundHalfEven_ge:
  assumes "of_int n \<le> q"
  shows "n \<le> roundHalfEven q"
proof -
  from assms have "n \<le> \<lfloor>q\<rfloor>" by (simp add: le_floor_iff)
  then show ?thesis by (simp add: roundHalfEven_def Let_def)
qed


lemma pw_add: "(2::real) powi (a + b) = 2 powi a * 2 powi b"
  by (rule power_int_add) simp

lemma pw_pos: "(0::real) < 2 powi a"
  by simp

lemma pw_mono: "a \<le> b \<Longrightarrow> (2::real) powi a \<le> 2 powi b"
  by (rule power_int_increasing) simp_all

lemma pw_strict: "a < b \<Longrightarrow> (2::real) powi a < 2 powi b"
  by (rule power_int_strict_increasing) simp_all

lemma pw_int: "0 \<le> a \<Longrightarrow> (2::real) powi a = of_int (2 ^ nat a)"
  by (simp add: power_int_def)

lemma limit_pw: "overflowLimit = 2 powi 1024"
  by (simp add: overflowLimit_def)

lemma pw_lt_limit:
  assumes "K < 1024"
  shows "2 powi K < overflowLimit"
  unfolding limit_pw using assms by (rule pw_strict)

lemma roundDouble_scaled:
  assumes r: "r \<noteq> 0" and e: "ulpExponent r = e"
    and n: "roundHalfEven (r / 2 powi e) = n"
    and v: "\<bar>real_of_int n * 2 powi e\<bar> < overflowLimit"
  shows "roundDouble r = Num (real_of_int n * 2 powi e)"
  using assms by (simp add: roundDouble_def Let_def)

lemma roundDouble_absorb:
  assumes K: "54 \<le> K" "K \<le> 1023" and d: "\<bar>d\<bar> < 2 powi (K - 54)"
  shows "roundDouble (2 powi K + d) = Num (2 powi K)"
proof -
  let ?X = "(2::real) powi K"
  let ?r = "?X + d"
  define t where "t = (2::real) powi (K - 54)"
  have t: "0 < t" "\<bar>d\<bar> < t"
    using d by (simp_all add: t_def)
  have X54: "?X = 2 powi 54 * t"
    unfolding t_def using pw_add [of 54 "K - 54"] by simp
  have "(4::real) \<le> 2 powi 54"
    using pw_mono [of 2 54] by simp
  then have small: "4 * t \<le> ?X"
    unfolding X54 using t(1) by simp
  have Xlim: "\<bar>?X\<bar> < overflowLimit"
    using pw_lt_limit [of K] K by simp
  have Xpos: "0 < ?X"
    by simp
  have step: "roundDouble ?r = Num ?X"
    if e: "ulpExponent ?r = K - j" and j: "j = 52 \<or> j = 53"
      and q: "\<bar>d / 2 powi (K - j)\<bar> < 1 / 2" for j
  proof -
    define m :: int where "m = 2 ^ nat j"
    have m: "real_of_int m = 2 powi j"
      using j by (auto simp: m_def pw_int)
    have X: "?X = real_of_int m * 2 powi (K - j)"
      unfolding m using pw_add [of j "K - j"] by simp
    have "?r / 2 powi (K - j) = real_of_int m + d / 2 powi (K - j)"
      unfolding X using pw_pos [of "K - j"] by (simp add: field_simps)
    with q have "\<bar>?r / 2 powi (K - j) - of_int m\<bar> < 1 / 2"
      by simp
    then have n: "roundHalfEven (?r / 2 powi (K - j)) = m"
      by (rule roundHalfEven_near)
    have r0: "?r \<noteq> 0"
      using t small by linarith
    have "roundDouble ?r = Num (real_of_int m * 2 powi (K - j))"
      using r0 e n Xlim unfolding X by (rule roundDouble_scaled)
    then show ?thesis
      unfolding X .
  qed
  show ?thesis
  proof (cases "0 \<le> d")
    case True
    have "?X \<le> ?r" using True by simp
    moreover have "?r < 2 powi (K + 1)"
      using t small by (simp add: pw_add [of K 1])
    ultimately have "\<lfloor>log 2 ?r\<rfloor> = K"
      by (rule binade)
    moreover have "0 < ?r" using True Xpos by linarith
    ultimately have e: "ulpExponent ?r = K - 52"
      using K by (simp add: ulpExponent_def)
    have u: "(2::real) powi (K - 52) = 4 * t"
      unfolding t_def using pw_add [of 2 "K - 54"] by simp
    have "\<bar>d / 2 powi (K - 52)\<bar> < 1 / 2"
      unfolding u using t by (simp add: field_simps)
    with e show ?thesis
      by (intro step [of 52]) simp_all
  next
    case False
    have h: "?X = 2 * 2 powi (K - 1)"
      using pw_add [of 1 "K - 1"] by simp
    have "2 powi (K - 1) \<le> ?r"
      using t small h by linarith
    moreover have "?r < 2 powi (K - 1 + 1)"
      using False by simp
    ultimately have "\<lfloor>log 2 ?r\<rfloor> = K - 1"
      by (rule binade)
    moreover have "0 < ?r"
      using t small by linarith
    ultimately have e: "ulpExponent ?r = K - 53"
      using K by (simp add: ulpExponent_def)
    have u: "(2::real) powi (K - 53) = 2 * t"
      unfolding t_def using pw_add [of 1 "K - 54"] by simp
    have "\<bar>d / 2 powi (K - 53)\<bar> < 1 / 2"
      unfolding u using t by (simp add: field_simps)
    with e show ?thesis
      by (intro step [of 53]) simp_all
  qed
qed


lemma roundHalfEven_int: "roundHalfEven (of_int n) = n"
  by (rule roundHalfEven_near) simp

lemma roundDouble_below:
  assumes "0 \<le> r" "r < 2 powi k" "- 1021 \<le> k" "k \<le> 1023"
  shows "\<exists>v. roundDouble r = Num v \<and> 0 \<le> v \<and> v \<le> 2 powi k"
proof (cases "r = 0")
  case True
  then show ?thesis
    by (simp add: roundDouble_def)
next
  case False
  with assms(1) have pos: "0 < r" by simp
  define e where "e = ulpExponent r"
  have "\<lfloor>log 2 r\<rfloor> < k"
    using pos assms(2) by (rule binade_less)
  then have e: "e \<le> k - 53"
    using pos assms(3) by (simp add: e_def ulpExponent_def)
  define N :: int where "N = 2 ^ nat (k - e)"
  have N: "real_of_int N = 2 powi (k - e)"
    using e by (simp add: N_def pw_int)
  have split: "(2::real) powi k = 2 powi (k - e) * 2 powi e"
    using pw_add [of "k - e" e] by simp
  define n where "n = roundHalfEven (r / 2 powi e)"
  have "r / 2 powi e \<le> real_of_int N"
    unfolding N using assms(2) pw_pos [of e] by (simp add: split field_simps)
  then have nN: "n \<le> N"
    unfolding n_def by (rule roundHalfEven_le)
  have "real_of_int 0 \<le> r / 2 powi e"
    using pos by simp
  then have n0: "0 \<le> n"
    unfolding n_def by (rule roundHalfEven_ge)
  let ?v = "real_of_int n * 2 powi e"
  have v0: "0 \<le> ?v"
    using n0 by simp
  have "?v \<le> real_of_int N * 2 powi e"
    using nN by (simp add: mult_right_mono)
  then have vk: "?v \<le> 2 powi k"
    by (simp add: N split)
  have "2 powi k < overflowLimit"
    using assms(4) by (intro pw_lt_limit) simp
  with v0 vk have "\<bar>?v\<bar> < overflowLimit"
    by simp
  with False have "roundDouble r = Num ?v"
    unfolding n_def e_def by (intro roundDouble_scaled) simp_all
  with v0 vk show ?thesis
    by blast
qed

lemma roundDouble_exact:
  assumes m: "\<bar>m\<bar> < 2 ^ 53" and e: "- 1074 \<le> e" "e \<le> 971"
  shows "roundDouble (real_of_int m * 2 powi e) = Num (real_of_int m * 2 powi e)"
proof (cases "m = 0")
  case True
  then show ?thesis
    by (simp add: roundDouble_def)
next
  case False
  let ?r = "real_of_int m * 2 powi e"
  have r0: "?r \<noteq> 0"
    using False by simp
  have "real_of_int \<bar>m\<bar> < real_of_int (2 ^ 53)"
    using m by (simp only: of_int_less_iff)
  then have "\<bar>real_of_int m\<bar> < 2 powi 53"
    by (simp add: pw_int)
  then have "\<bar>?r\<bar> < 2 powi 53 * 2 powi e"
    using pw_pos [of e] by (simp add: abs_mult)
  then have lt: "\<bar>?r\<bar> < 2 powi (53 + e)"
    by (simp add: pw_add)
  define E where "E = ulpExponent ?r"
  have "\<lfloor>log 2 \<bar>?r\<bar>\<rfloor> < 53 + e"
    using r0 lt by (intro binade_less) simp_all
  then have E: "E \<le> e"
    using e(1) by (simp add: E_def ulpExponent_def)
  define c :: int where "c = 2 ^ nat (e - E)"
  have c: "real_of_int c = 2 powi (e - E)"
    using E by (simp add: c_def pw_int)
  have split: "(2::real) powi e = 2 powi (e - E) * 2 powi E"
    using pw_add [of "e - E" E] by simp
  have "?r / 2 powi E = real_of_int (m * c)"
    using pw_pos [of E] by (simp add: c split)
  then have n: "roundHalfEven (?r / 2 powi E) = m * c"
    by (simp only: roundHalfEven_int)
  have v: "real_of_int (m * c) * 2 powi E = ?r"
    by (simp add: c split)
  have "2 powi (53 + e) \<le> overflowLimit"
    unfolding limit_pw using e(2) by (intro pw_mono) simp
  with lt have "\<bar>real_of_int (m * c) * 2 powi E\<bar> < overflowLimit"
    unfolding v by linarith
  with r0 n have "roundDouble ?r = Num (real_of_int (m * c) * 2 powi E)"
    unfolding E_def by (intro roundDouble_scaled) simp_all
  then show ?thesis
    unfolding v .
qed

lemma roundDouble_int:
  assumes "\<bar>m\<bar> < 2 ^ 53"
  shows "roundDouble (real_of_int m) = Num (real_of_int m)"
  using roundDouble_exact [OF assms, of 0] by simp

lemma roundDouble_lower:
  assumes "2 powi k \<le> r" "r < 2 powi (k + 1)" "- 1022 \<le> k" "k \<le> 1022"
  shows "\<exists>v. roundDouble r = Num v \<and> 2 powi k \<le> v"
proof -
  have pos: "0 < r"
    using assms(1) pw_pos [of k] by linarith
  have "\<lfloor>log 2 r\<rfloor> = k"
    using assms(1,2) by (rule binade)
  then have e: "ulpExponent r = k - 52"
    using pos assms(3) by (simp add: ulpExponent_def)
  define u where "u = (2::real) powi (k - 52)"
  have u: "0 < u"
    by (simp add: u_def)
  define n where "n = roundHalfEven (r / u)"
  define lo :: int where "lo = 2 ^ nat 52"
  define hi :: int where "hi = 2 ^ nat 53"
  have "(2::real) powi k = 2 powi 52 * u"
    unfolding u_def using pw_add [of 52 "k - 52"] by simp
  then have k52: "(2::real) powi k = real_of_int lo * u"
    unfolding lo_def using pw_int [of 52] by simp
  have "(2::real) powi (k + 1) = 2 powi 53 * u"
    unfolding u_def using pw_add [of 53 "k - 52"] by (simp add: add.commute)
  then have k53: "(2::real) powi (k + 1) = real_of_int hi * u"
    unfolding hi_def using pw_int [of 53] by simp
  have "real_of_int lo \<le> r / u"
    using assms(1) u unfolding k52 by (simp add: field_simps)
  then have n_lo: "lo \<le> n"
    unfolding n_def by (rule roundHalfEven_ge)
  have "r / u \<le> real_of_int hi"
    using assms(2) u unfolding k53 by (simp add: field_simps)
  then have n_hi: "n \<le> hi"
    unfolding n_def by (rule roundHalfEven_le)
  let ?v = "real_of_int n * u"
  have "real_of_int lo * u \<le> ?v"
    using n_lo u by (simp add: mult_right_mono)
  then have v_lo: "2 powi k \<le> ?v"
    unfolding k52 .
  have "?v \<le> real_of_int hi * u"
    using n_hi u by (simp add: mult_right_mono)
  then have v_hi: "?v \<le> 2 powi (k + 1)"
    unfolding k53 .
  have "2 powi (k + 1) < overflowLimit"
    using assms(4) by (intro pw_lt_limit) simp
  moreover have "0 < ?v"
    using v_lo pw_pos [of k] by linarith
  ultimately have "\<bar>?v\<bar> < overflowLimit"
    using v_hi by linarith
  with pos e have "roundDouble r = Num ?v"
    unfolding n_def u_def by (intro roundDouble_scaled) simp_all
  with v_lo show ?thesis
    by blast
qed

lemma roundDouble_binade:
  assumes "2 powi k \<le> \<bar>r\<bar>" "\<bar>r\<bar> < 2 powi (k + 1)" "- 1022 \<le> k"
  shows "roundDouble r =
    (let v = of_int (roundHalfEven (r / 2 powi (k - 52))) * 2 powi (k - 52)
     in if overflowLimit \<le> \<bar>v\<bar> then (if 0 < v then PosInf else NegInf) else Num v)"
proof -
  have "0 < \<bar>r\<bar>"
    using assms(1) pw_pos [of k] by linarith
  then have r0: "r \<noteq> 0"
    by simp
  have "\<lfloor>log 2 \<bar>r\<bar>\<rfloor> = k"
    using assms(1,2) by (rule binade)
  then have "ulpExponent r = k - 52"
    using assms(3) by (simp add: ulpExponent_def)
  with r0 show ?thesis
    by (simp add: roundDouble_def Let_def)
qed

lemma roundDouble_numeral:
  "numeral n < (2::int) ^ 53 \<Longrightarrow> roundDouble (numeral n) = Num (numeral n)"
  using roundDouble_int [of "numeral n"] by simp

lemma roundDouble_power:
  assumes "54 \<le> K" "K \<le> 1023"
  shows "roundDouble (2 powi K) = Num (2 powi K)"
  using roundDouble_absorb [OF assms, of 0] by simp


section \<open>Zone calculator\<close>

lemma columnIndex_range:
  assumes "0 < w" "0 \<le> x"
  shows "0 \<le> columnIndex x w \<and> columnIndex x w \<le> 7"
  using assms by (simp add: columnIndex_def columns_def)

lemma columnIndex_mono:
  assumes "0 < w" "x \<le> x'"
  shows "columnIndex x w \<le> columnIndex x' w"
proof -
  have "x / (w / 8) \<le> x' / (w / 8)"
    using assms by (simp add: divide_right_mono)
  then have "\<lfloor>x / (w / 8)\<rfloor> \<le> \<lfloor>x' / (w / 8)\<rfloor>"
    by (rule floor_mono)
  then show ?thesis
    by (simp add: columnIndex_def columns_def)
qed

lemma rowIndex_range:
  assumes "0 < h" "y \<le> h"
  shows "0 \<le> rowIndex y h \<and> rowIndex y h \<le> 7"
  using assms by (simp add: rowIndex_def numRows_def)

lemma rowIndex_antimono:
  assumes "0 < h" "y \<le> y'"
  shows "rowIndex y' h \<le> rowIndex y h"
proof -
  have "(h - y') / (h / 8) \<le> (h - y) / (h / 8)"
    using assms by (simp add: divide_right_mono)
  then have "\<lfloor>(h - y') / (h / 8)\<rfloor> \<le> \<lfloor>(h - y) / (h / 8)\<rfloor>"
    by (rule floor_mono)
  then show ?thesis
    by (simp add: rowIndex_def numRows_def)
qed

lemma column_letter:
  assumes "0 \<le> i" "i \<le> 7"
  shows "jsIndex columns i = Some (columns ! nat i)
    \<and> int (of_char (hd (columns ! nat i))) = 65 + i"
proof -
  have "i \<in> {0, 1, 2, 3, 4, 5, 6, 7}"
    using assms by (rule int_range8)
  then show ?thesis
    by (auto simp: jsIndex_def columns_def)
qed

lemma row_label:
  assumes "0 \<le> r" "r \<le> 7"
  shows "intToString (r + 1) = rowLabels ! nat r
    \<and> int (of_char (last (rowLabels ! nat r)) - of_char CHR ''0'') = r + 1"
proof -
  have "r \<in> {0, 1, 2, 3, 4, 5, 6, 7}"
    using assms by (rule int_range8)
  then show ?thesis
    by (auto simp: intToString_def rowLabels_def showNat_digit)
qed

lemma zoneCodes_mem:
  "c \<in> set columns \<Longrightarrow> r \<in> set rowLabels \<Longrightarrow> c @ ''-'' @ r \<in> set zoneCodes"
  by (auto simp: zoneCodes_def)

lemma zoneCodes_64: "length zoneCodes = 64 \<and> distinct zoneCodes"
  by (simp add: zoneCodes_def columns_def rowLabels_def)

lemma zoneText_in_grid:
  assumes "0 \<le> columnIndex x w" "columnIndex x w \<le> 7"
    and "0 \<le> rowIndex y h" "rowIndex y h \<le> 7"
  shows "zoneText x y w h \<in> set zoneCodes
       \<and> int (zoneColumn (zoneText x y w h)) = 65 + columnIndex x w
       \<and> int (zoneRow (zoneText x y w h)) = rowIndex y h + 1"
proof -
  let ?c = "columns ! nat (columnIndex x w)" and ?r = "rowLabels ! nat (rowIndex y h)"
  have z: "zoneText x y w h = ?c @ ''-'' @ ?r"
    using column_letter [OF assms(1,2)] row_label [OF assms(3,4)]
    by (simp add: zoneText_def)
  have c: "?c \<in> set columns"
    using assms(1,2) by (intro nth_mem) (simp add: columns_def)
  have r: "?r \<in> set rowLabels"
    using assms(3,4) by (intro nth_mem) (simp add: rowLabels_def)
  have c1: "?c \<noteq> []" and r1: "?r \<noteq> []"
    using c r by (auto simp: columns_def rowLabels_def)
  show ?thesis
    using column_letter [OF assms(1,2)] row_label [OF assms(3,4)] zoneCodes_mem [OF c r] c1 r1
    by (simp add: z zoneColumn_def zoneRow_def)
qed

text \<open>
  Where the indices of the code are the clamped ones: for \<open>x \<ge> 0\<close> and \<open>y \<le> pageHeight\<close>.
\<close>

lemma indices_clamped_inside:
  assumes "0 < w" "0 < h" "0 \<le> x" "y \<le> h"
  shows "columnIndex x w = max 0 (min \<lfloor>x / (w / 8)\<rfloor> 7)
    \<and> rowIndex y h = max 0 (min \<lfloor>(h - y) / (h / 8)\<rfloor> 7)"
  using columnIndex_range [OF assms(1,3)] rowIndex_range [OF assms(2,4)]
  by (simp add: columnIndex_def rowIndex_def columns_def numRows_def)

text \<open>
  C5. The claim clamps the column index and the row index to 0..7 for every \<open>x\<close> and
  \<open>y\<close>, so that a code is always a letter A to H with a row 1 to 8. In the code the column
  index is \<open>min (floor (x / columnWidth)) 7\<close> and the row index is
  \<open>min (floor ((pageHeight - y) / rowHeight)) 7\<close>: neither is clamped from below at 0.
  On an 800 by 600 page the point \<open>(-10, 100)\<close> has column index \<open>-1\<close>, the read
  \<^verbatim>\<open>columns[-1]\<close> is \<^verbatim>\<open>undefined\<close> and the code returned is not a letter with a row;
  the point \<open>(100, 700)\<close>, below the page, has row index \<open>-2\<close> and so the row \<open>-1\<close>.
\<close>

theorem calculateDrawingZone_outside_page:
  "columnIndex (-10) 800 = -1
   \<and> calculateDrawingZone (-10) 100 (Num 800) (Num 600) = Inr ''undefined-7''
   \<and> rowIndex 700 600 = -2
   \<and> calculateDrawingZone 100 700 (Num 800) (Num 600) = Inr ''B--1''"
  by (simp add: zone_eval)

theorem calculateDrawingZone_outside_page_witness:
  "calculateDrawingZone (-10) 100 (Num 800) (Num 600) \<noteq> Inr ''A-7''
   \<and> calculateDrawingZone (-10) 100 (Num 800) (Num 600) \<notin> Inr ` set zoneCodes
   \<and> calculateDrawingZone 100 700 (Num 800) (Num 600) \<noteq> Inr ''B-1''
   \<and> calculateDrawingZone 100 700 (Num 800) (Num 600) \<notin> Inr ` set zoneCodes"
  using calculateDrawingZone_outside_page
  by (simp add: zoneCodes_def columns_def rowLabels_def)

text \<open>
  C6. On a page of finite positive width \<open>w\<close> and height \<open>h\<close>, every point of
  \<open>[0, w] \<times> [0, h]\<close> gets one of the 64 codes \<open>A-1\<close> .. \<open>H-8\<close>; with the other arguments
  fixed, a larger \<open>x\<close> never gives an earlier column letter and a larger \<open>y\<close> never gives a
  larger row number.
\<close>

theorem calculateDrawingZone_grid_monotone:
  assumes "0 < w" "0 < h" "0 \<le> x" "x \<le> x'" "x' \<le> w" "0 \<le> y" "y \<le> y'" "y' \<le> h"
  shows "length zoneCodes = 64 \<and> distinct zoneCodes
    \<and> calculateDrawingZone x y (Num w) (Num h) \<in> Inr ` set zoneCodes
    \<and> zoneColumn (projr (calculateDrawingZone x y (Num w) (Num h)))
        \<le> zoneColumn (projr (calculateDrawingZone x' y (Num w) (Num h)))
    \<and> zoneRow (projr (calculateDrawingZone x y' (Num w) (Num h)))
        \<le> zoneRow (projr (calculateDrawingZone x y (Num w) (Num h)))"
proof -
  have z: "calculateDrawingZone a b (Num w) (Num h) = Inr (zoneText a b w h)" for a b
    using assms(1,2) by (simp add: calculateDrawingZone_def)
  have cx: "0 \<le> columnIndex x w \<and> columnIndex x w \<le> 7"
    using assms by (intro columnIndex_range) auto
  have cx': "0 \<le> columnIndex x' w \<and> columnIndex x' w \<le> 7"
    using assms by (intro columnIndex_range) auto
  have ry: "0 \<le> rowIndex y h \<and> rowIndex y h \<le> 7"
    using assms by (intro rowIndex_range) auto
  have ry': "0 \<le> rowIndex y' h \<and> rowIndex y' h \<le> 7"
    using assms by (intro rowIndex_range) auto
  have g1: "zoneText x y w h \<in> set zoneCodes"
    and k1: "int (zoneColumn (zoneText x y w h)) = 65 + columnIndex x w"
    and r1: "int (zoneRow (zoneText x y w h)) = rowIndex y h + 1"
    using zoneText_in_grid [of x w y h] cx ry by simp_all
  have k2: "int (zoneColumn (zoneText x' y w h)) = 65 + columnIndex x' w"
    using zoneText_in_grid [of x' w y h] cx' ry by simp
  have r2: "int (zoneRow (zoneText x y' w h)) = rowIndex y' h + 1"
    using zoneText_in_grid [of x w y' h] cx ry' by simp
  have "int (zoneColumn (zoneText x y w h)) \<le> int (zoneColumn (zoneText x' y w h))"
    using columnIndex_mono [OF assms(1) assms(4)] by (simp add: k1 k2)
  moreover have "int (zoneRow (zoneText x y' w h)) \<le> int (zoneRow (zoneText x y w h))"
    using rowIndex_antimono [OF assms(2) assms(7)] by (simp add: r1 r2)
  ultimately show ?thesis
    using g1 zoneCodes_64 by (simp add: z)
qed

theorem calculateDrawingZone_grid_monotone_witness:
  "(0::real) < 800 \<and> (0::real) < 600 \<and> (0::real) \<le> 100 \<and> (100::real) \<le> 700
    \<and> (700::real) \<le> 800 \<and> (0::real) \<le> 10 \<and> (10::real) \<le> 500 \<and> (500::real) \<le> 600
    \<and> calculateDrawingZone 100 10 (Num 800) (Num 600) \<in> Inr ` set zoneCodes
    \<and> zoneColumn (projr (calculateDrawingZone 100 10 (Num 800) (Num 600)))
        \<le> zoneColumn (projr (calculateDrawingZone 700 10 (Num 800) (Num 600)))
    \<and> zoneRow (projr (calculateDrawingZone 100 500 (Num 800) (Num 600)))
        \<le> zoneRow (projr (calculateDrawingZone 100 10 (Num 800) (Num 600)))"
  using calculateDrawingZone_grid_monotone [of 800 600 100 700 10 500] by simp

text \<open>
  C7. The zone calculation throws exactly when the page width or the page height is not a
  finite positive number; for finite positive dimensions it returns a code.
\<close>

theorem calculateDrawingZone_throws_iff:
  "(\<exists>e. calculateDrawingZone x y pageWidth pageHeight = Inl e)
     = (\<not> (finitePositive pageWidth \<and> finitePositive pageHeight))"
  by (cases pageWidth; cases pageHeight)
     (auto simp: calculateDrawingZone_def finitePositive_def)

theorem calculateDrawingZone_throws_iff_witness:
  "(\<exists>e. calculateDrawingZone 1 1 (Num 0) (Num 600) = Inl e)
   \<and> (\<exists>e. calculateDrawingZone 1 1 (Num 800) NaN = Inl e)
   \<and> (\<exists>e. calculateDrawingZone 1 1 PosInf (Num 600) = Inl e)
   \<and> (\<exists>e. calculateDrawingZone 1 1 (Num (-800)) (Num 600) = Inl e)
   \<and> (\<exists>e. calculateDrawingZone 1 1 (Num 800) (Num (-600)) = Inl e)
   \<and> \<not> (\<exists>e. calculateDrawingZone 1 1 (Num 800) (Num 600) = Inl e)"
  using calculateDrawingZone_throws_iff [of 1 1 "Num 0" "Num 600"]
    calculateDrawingZone_throws_iff [of 1 1 "Num 800" NaN]
    calculateDrawingZone_throws_iff [of 1 1 PosInf "Num 600"]
    calculateDrawingZone_throws_iff [of 1 1 "Num (-800)" "Num 600"]
    calculateDrawingZone_throws_iff [of 1 1 "Num 800" "Num (-600)"]
    calculateDrawingZone_throws_iff [of 1 1 "Num 800" "Num 600"]
  by (simp add: finitePositive_def)


section \<open>Balloon size\<close>

text \<open>
  C9. The balloon diameter is the step function 24, 20, 18, 16, 14 with steps after the
  counts 20, 40, 60 and 80; it is non-increasing in the count, and takes the boundary values
  20 to 24, 21 to 20, 40 to 20, 41 to 18, 80 to 16 and 81 to 14.
\<close>

theorem calculateBalloonSize_step:
  "calculateBalloonSize n =
     (if n \<le> 20 then 24 else if n \<le> 40 then 20 else if n \<le> 60 then 18
      else if n \<le> 80 then 16 else 14)
   \<and> (m \<le> n \<longrightarrow> calculateBalloonSize n \<le> calculateBalloonSize m)
   \<and> calculateBalloonSize 20 = 24 \<and> calculateBalloonSize 21 = 20
   \<and> calculateBalloonSize 40 = 20 \<and> calculateBalloonSize 41 = 18
   \<and> calculateBalloonSize 80 = 16 \<and> calculateBalloonSize 81 = 14"
  by (simp add: calculateBalloonSize_def)

theorem calculateBalloonSize_step_witness:
  "(30::real) \<le> 70 \<and> calculateBalloonSize 70 \<le> calculateBalloonSize 30
   \<and> calculateBalloonSize 70 = 16 \<and> calculateBalloonSize 30 = 20"
  using calculateBalloonSize_step [of 70 30] calculateBalloonSize_step [of 30 30]
  by simp


section \<open>Leader calculator\<close>

text \<open>
  At integer positions of magnitude up to \<open>2 ^ 52\<close> every sum of the function is exact:
  the leader point lies at the offsets \<open>(30, 15)\<close> in the chosen quadrant, its distance
  from the position is the rounding of \<open>sqrt 1125\<close> and the loop is not entered.
\<close>

lemma sqrt_1125: "32 \<le> sqrt 1125" "sqrt 1125 < 64"
proof -
  have "sqrt (32\<^sup>2) \<le> sqrt 1125"
    by (rule real_sqrt_le_mono) simp
  then show "32 \<le> sqrt 1125"
    by simp
  have "sqrt 1125 < sqrt (64\<^sup>2)"
    by (rule real_sqrt_less_mono) simp
  then show "sqrt 1125 < 64"
    by simp
qed

lemma distance_30_15:
  assumes "\<bar>p\<bar> = 30" "\<bar>q\<bar> = 15"
  shows "\<exists>v. jsHypot (Num p) (Num q) = Num v \<and> 32 \<le> v"
proof -
  have "p\<^sup>2 = \<bar>p\<bar>\<^sup>2" "q\<^sup>2 = \<bar>q\<bar>\<^sup>2"
    by simp_all
  then have "p\<^sup>2 + q\<^sup>2 = 1125"
    unfolding assms by simp
  then have "jsHypot (Num p) (Num q) = roundDouble (sqrt 1125)"
    by (simp add: jsHypot_def)
  moreover have "\<exists>v. roundDouble (sqrt 1125) = Num v \<and> 2 powi 5 \<le> v"
    using sqrt_1125 by (intro roundDouble_lower) simp_all
  ultimately show ?thesis
    by simp
qed

lemma computeLeaderOffset_integer_positions:
  assumes i: "\<bar>i\<bar> \<le> 2 ^ 52" and j: "\<bar>j\<bar> \<le> 2 ^ 52"
  shows "\<exists>dx dy. \<bar>dx\<bar> = 30 \<and> \<bar>dy\<bar> = 15 \<and>
    computeLeaderOffset (Num (of_int i)) (Num (of_int j)) d
      = Some \<lparr> leaderX = Num (of_int (i + dx)), leaderY = Num (of_int (j + dy)) \<rparr>"
proof -
  have start: "\<exists>dx dy. \<bar>dx\<bar> = 30 \<and> \<bar>dy\<bar> = 15 \<and>
      leaderLoop (Num (of_int i)) (Num (of_int j)) hdir vdir (Num 30) (Num 15)
        = Some \<lparr> leaderX = Num (of_int (i + dx)), leaderY = Num (of_int (j + dy)) \<rparr>"
    for hdir vdir
  proof -
    define dx :: int where "dx = (if hdir = Right then 30 else - 30)"
    define dy :: int where "dy = (if vdir = Down then 15 else - 15)"
    have dx: "\<bar>dx\<bar> = 30" and dy: "\<bar>dy\<bar> = 15"
      by (simp_all add: dx_def dy_def)
    have "\<bar>i + dx\<bar> < 2 ^ 53" "\<bar>j + dy\<bar> < 2 ^ 53"
      using i j dx dy by simp_all
    then have rx: "roundDouble (real_of_int (i + dx)) = Num (real_of_int (i + dx))"
      and ry: "roundDouble (real_of_int (j + dy)) = Num (real_of_int (j + dy))"
      by (simp_all only: roundDouble_int)
    have "\<bar>dx\<bar> < 2 ^ 53" "\<bar>dy\<bar> < 2 ^ 53"
      using dx dy by simp_all
    then have sx: "roundDouble (real_of_int dx) = Num (real_of_int dx)"
      and sy: "roundDouble (real_of_int dy) = Num (real_of_int dy)"
      by (simp_all only: roundDouble_int)
    have l: "leaderAt (Num (of_int i)) (Num (of_int j)) hdir vdir (Num 30) (Num 15)
        = \<lparr> leaderX = Num (of_int (i + dx)), leaderY = Num (of_int (j + dy)) \<rparr>"
      using rx ry by (simp add: leaderAt_def dx_def dy_def split: if_splits)
    have bx: "jsSub (Num (of_int (i + dx))) (Num (of_int i)) = Num (of_int dx)"
      using sx by (simp add: jsSub_def)
    have by': "jsSub (Num (of_int (j + dy))) (Num (of_int j)) = Num (of_int dy)"
      using sy by (simp add: jsSub_def)
    obtain v where v: "jsHypot (Num (of_int dx)) (Num (of_int dy)) = Num v" "32 \<le> v"
      using distance_30_15 [of "of_int dx" "of_int dy"] dx dy
      by (metis of_int_abs of_int_numeral)
    have "leaderLoop (Num (of_int i)) (Num (of_int j)) hdir vdir (Num 30) (Num 15)
        = Some \<lparr> leaderX = Num (of_int (i + dx)), leaderY = Num (of_int (j + dy)) \<rparr>"
      using v(2)
      by (subst leaderLoop.simps) (simp add: l bx by' v(1) MIN_LEADER_DISTANCE_def Let_def del: of_int_add)
    with dx dy show ?thesis
      by blast
  qed
  show ?thesis
    unfolding computeLeaderOffset_def Let_def by (rule start)
qed

lemma computeLeaderOffset_example:
  "computeLeaderOffset (Num 100) (Num 200) (Some \<lparr>horizontal = Some Left, vertical = None\<rparr>)
     = Some \<lparr> leaderX = Num 70, leaderY = Num 215 \<rparr>"
proof -
  have "\<exists>v. jsHypot (Num (- 30)) (Num 15) = Num v \<and> 32 \<le> v"
    by (rule distance_30_15) simp_all
  then obtain v where v: "jsHypot (Num (- 30)) (Num 15) = Num v" "32 \<le> v"
    by blast
  show ?thesis
    unfolding computeLeaderOffset_def using v(2)
    by (simp add: Let_def, subst leaderLoop.simps)
      (simp add: Let_def leaderAt_def jsSub_def roundDouble_numeral v(1) MIN_LEADER_DISTANCE_def
        roundDouble_int [of "- 30", simplified])
qed

text \<open>
  At \<open>(10 ^ 18, 10 ^ 18)\<close> the doubles are 128 apart. The offsets \<open>30, 40, 50, 60\<close> and
  \<open>15, 20, 25, 30\<close> are absorbed, the distance is \<open>0\<close> four times and the loop runs four
  times; the offset \<open>70\<close> rounds to the next double, and the function returns a point 128
  to the right of the position and level with it.
\<close>

lemma round_1e18:
  "roundDouble 1000000000000000030 = Num 1000000000000000000"
  "roundDouble 1000000000000000040 = Num 1000000000000000000"
  "roundDouble 1000000000000000050 = Num 1000000000000000000"
  "roundDouble 1000000000000000060 = Num 1000000000000000000"
  "roundDouble 1000000000000000070 = Num 1000000000000000128"
  "roundDouble 1000000000000000015 = Num 1000000000000000000"
  "roundDouble 1000000000000000020 = Num 1000000000000000000"
  "roundDouble 1000000000000000025 = Num 1000000000000000000"
  "roundDouble 1000000000000000035 = Num 1000000000000000000"
  by (subst roundDouble_binade [where k = 59];
      simp add: roundHalfEven_def overflowLimit_def Let_def)+

lemma computeLeaderOffset_loop_runs:
  "computeLeaderOffset (Num 1000000000000000000) (Num 1000000000000000000) None
     = Some \<lparr> leaderX = Num 1000000000000000128, leaderY = Num 1000000000000000000 \<rparr>"
  unfolding computeLeaderOffset_def
  apply (simp add: Let_def)
  apply (subst leaderLoop.simps,
      simp add: Let_def leaderAt_def jsSub_def jsHypot_def round_1e18 roundDouble_numeral
        MIN_LEADER_DISTANCE_def roundDouble_def [of 0])+
  done

text \<open>
  At \<open>(2 ^ K, 2 ^ K)\<close> with \<open>K\<close> above \<open>B + 54\<close> the offsets never leave the interval from
  \<open>0\<close> to \<open>2 ^ B\<close>: once an offset is \<open>2 ^ B\<close>, adding \<open>10\<close> or \<open>5\<close> to it is itself
  absorbed. Every offset of that interval is absorbed by the position, so the distance is
  \<open>0\<close> in every run of the loop and no run returns.
\<close>

lemma offset_bound:
  assumes B: "58 \<le> B" "B \<le> 1023"
    and a: "0 \<le> a" "a \<le> 2 powi B" and c: "0 \<le> c" "c \<le> 10"
  shows "\<exists>a'. roundDouble (a + c) = Num a' \<and> 0 \<le> a' \<and> a' \<le> 2 powi B"
proof (cases "a + c < 2 powi B")
  case True
  then show ?thesis
    using a c B by (intro roundDouble_below) simp_all
next
  case False
  define d where "d = a + c - 2 powi B"
  have d: "0 \<le> d" "d \<le> 10"
    using False a c by (simp_all add: d_def)
  have "(2::real) powi 4 \<le> 2 powi (B - 54)"
    using B by (intro pw_mono) simp
  then have "(16::real) \<le> 2 powi (B - 54)"
    by simp
  with d have "\<bar>d\<bar> < 2 powi (B - 54)"
    by simp
  then have "roundDouble (2 powi B + d) = Num (2 powi B)"
    using B by (intro roundDouble_absorb) simp_all
  moreover have "2 powi B + d = a + c"
    by (simp add: d_def)
  ultimately show ?thesis
    by simp
qed

lemma leaderLoop_stuck:
  assumes K: "54 \<le> K" "K \<le> 1023" and B: "58 \<le> B" "B < K - 54"
    and run: "leaderLoop x y hdir vdir h v = Some l"
  shows "x = Num (2 powi K) \<and> y = Num (2 powi K) \<longrightarrow>
    \<not> (\<exists>a b. h = Num a \<and> v = Num b \<and> 0 \<le> a \<and> a \<le> 2 powi B \<and> 0 \<le> b \<and> b \<le> 2 powi B)"
proof -
  let ?X = "Num (2 powi K)"
  let ?small = "\<lambda>h v. \<exists>a b. h = Num a \<and> v = Num b \<and> 0 \<le> a \<and> a \<le> 2 powi B \<and> 0 \<le> b
      \<and> b \<le> 2 powi B"
  let ?P = "\<lambda>x y (hdir::horizontalDir) (vdir::verticalDir) h v (l::leader).
      x = ?X \<and> y = ?X \<longrightarrow> \<not> ?small h v"
  have BK: "(2::real) powi B < 2 powi (K - 54)"
    using B by (intro pw_strict) simp
  have absorbed: "roundDouble (2 powi K + s) = Num (2 powi K)" if "\<bar>s\<bar> \<le> 2 powi B" for s
    using K that BK by (intro roundDouble_absorb) simp_all
  have zero: "jsSub ?X ?X = Num 0"
    by (simp add: jsSub_def roundDouble_def)
  have dist0: "jsHypot (Num 0) (Num 0) = Num 0"
    by (simp add: jsHypot_def roundDouble_def)
  have step: "?P x y hdir vdir h v l"
    if IH: "\<And>x y hdir vdir h v l. loop x y hdir vdir h v = Some l \<Longrightarrow> ?P x y hdir vdir h v l"
      and body: "(let l = leaderAt x y hdir vdir h v;
            distance = jsHypot (jsSub (leaderX l) x) (jsSub (leaderY l) y)
          in if jsLess distance (Num MIN_LEADER_DISTANCE)
             then loop x y hdir vdir (jsAdd h (Num 10)) (jsAdd v (Num 5))
             else Some l) = Some l"
    for loop x y hdir vdir h v l
  proof (intro impI notI)
    assume xy: "x = ?X \<and> y = ?X"
    assume "?small h v"
    then obtain a b where h: "h = Num a" and v: "v = Num b"
      and a: "0 \<le> a" "a \<le> 2 powi B" and b: "0 \<le> b" "b \<le> 2 powi B"
      by blast
    have lx: "leaderX (leaderAt ?X ?X hdir vdir h v) = ?X"
      using absorbed [of a] absorbed [of "- a"] a by (simp add: leaderAt_def h)
    have ly: "leaderY (leaderAt ?X ?X hdir vdir h v) = ?X"
      using absorbed [of b] absorbed [of "- b"] b by (simp add: leaderAt_def v)
    from body have next_run:
      "loop ?X ?X hdir vdir (jsAdd h (Num 10)) (jsAdd v (Num 5)) = Some l"
      by (simp add: xy Let_def lx ly zero dist0 MIN_LEADER_DISTANCE_def)
    obtain a' where a': "roundDouble (a + 10) = Num a'" "0 \<le> a'" "a' \<le> 2 powi B"
      using offset_bound [of B a 10] B K a by auto
    obtain b' where b': "roundDouble (b + 5) = Num b'" "0 \<le> b'" "b' \<le> 2 powi B"
      using offset_bound [of B b 5] B K b by auto
    have "?small (jsAdd h (Num 10)) (jsAdd v (Num 5))"
      using a' b' by (simp add: h v)
    with IH [OF next_run] show False
      by blast
  qed
  show ?thesis
    by (rule leaderLoop.raw_induct [where P = ?P, OF step run])
qed

text \<open>
  C8. The function does not return a leader point for every position. For
  \<open>113 \<le> K \<le> 1023\<close> the number \<open>2 ^ K\<close> is a finite double, and at the position
  \<open>(2 ^ K, 2 ^ K)\<close> the call of \<open>computeLeaderOffset\<close> never returns, whatever the direction
  hints: the leader point computed in every run of the loop is the position itself, at
  distance \<open>0\<close>. The smallest position covered, \<open>2 ^ 113\<close>, is about \<open>1.04e34\<close>. The
  documentation of the function promises, for every position, a point at distance at least
  \<open>5\<close>.
\<close>

theorem computeLeaderOffset_never_returns:
  assumes "113 \<le> K" "K \<le> 1023"
  shows "roundDouble (2 powi K) = Num (2 powi K)
    \<and> computeLeaderOffset (Num (2 powi K)) (Num (2 powi K)) d = None"
proof
  show "roundDouble (2 powi K) = Num (2 powi K)"
    using assms by (intro roundDouble_power) simp_all
  show "computeLeaderOffset (Num (2 powi K)) (Num (2 powi K)) d = None"
  proof (rule ccontr)
    assume "computeLeaderOffset (Num (2 powi K)) (Num (2 powi K)) d \<noteq> None"
    then obtain hdir vdir l where
      run: "leaderLoop (Num (2 powi K)) (Num (2 powi K)) hdir vdir (Num 30) (Num 15) = Some l"
      by (auto simp: computeLeaderOffset_def Let_def)
    have "(2::real) powi 5 \<le> 2 powi 58"
      by (rule pw_mono) simp
    then have "(32::real) \<le> 2 powi 58"
      by simp
    then have "\<exists>a b. Num 30 = Num a \<and> Num 15 = Num b \<and> 0 \<le> a \<and> a \<le> 2 powi 58 \<and> 0 \<le> b
        \<and> b \<le> 2 powi 58"
      by simp
    with leaderLoop_stuck [OF _ _ _ _ run, of K 58] assms show False
      by simp
  qed
qed

theorem computeLeaderOffset_never_returns_witness:
  "roundDouble (2 ^ 113) = Num (2 ^ 113)
   \<and> computeLeaderOffset (Num (2 ^ 113)) (Num (2 ^ 113)) None = None
   \<and> computeLeaderOffset (Num (2 ^ 1000)) (Num (2 ^ 1000))
       (Some \<lparr>horizontal = Some Left, vertical = Some Up\<rparr>) = None"
  using computeLeaderOffset_never_returns [of 113 None]
    computeLeaderOffset_never_returns [of 1000 "Some \<lparr>horizontal = Some Left, vertical = Some Up\<rparr>"]
  by simp


section \<open>Text matcher\<close>

text \<open>
  The examples of the specification: the edit distance of \<open>kitten\<close> and \<open>sitting\<close> is 3,
  equal strings and two empty strings have the similarity 1, and a text item \<open>10.5mm\<close> is
  found for the query \<open>10.5mm\<close> with the confidence 1 at its box, on the 0-indexed page.
\<close>

lemma levenshteinDistance_example: "levenshteinDistance ''kitten'' ''sitting'' = 3"
  by (simp add: levenshteinDistance_def upt_rec)

lemma calculateSimilarity_examples:
  "calculateSimilarity ''abc'' ''abc'' = 1 \<and> calculateSimilarity [] [] = 1"
  by (simp add: calculateSimilarity_def levenshteinDistance_def upt_rec)

lemma findTextPosition_exact_example:
  "findTextPosition ''10.5mm'' [pageWith [''10.5mm'']] (7 / 10)
     = Some \<lparr> tm_text = ''10.5mm'', tm_page = 0, tm_x = 100, tm_y = 200, tm_width = 40,
              tm_height = 10, tm_confidence = Num 1 \<rparr>"
  by (simp add: text_eval match_eval)

text \<open>
  What the substring branch computes: with both cleaned strings non-empty, the larger length
  over the smaller one.
\<close>

lemma substringSimilarity_ratio:
  assumes "a \<noteq> []" "b \<noteq> []"
  shows "substringSimilarity a b
    = Num (real (max (length a) (length b)) / real (min (length a) (length b)))"
proof -
  have a: "0 < real (length a)" and b: "0 < real (length b)"
    using assms by simp_all
  show ?thesis
  proof (cases "length a \<le> length b")
    case True
    then have "real (length a) / real (length b) \<le> real (length b) / real (length a)"
      using a b by (simp add: frac_le)
    with True a b show ?thesis
      by (simp add: substringSimilarity_def jsDiv_def max_def min_def)
  next
    case False
    then have "real (length b) / real (length a) \<le> real (length a) / real (length b)"
      using a b by (simp add: frac_le)
    with False a b show ?thesis
      by (simp add: substringSimilarity_def jsDiv_def max_def min_def)
  qed
qed

text \<open>
  C3. The claim gives a candidate that contains the query, or is contained in it, the
  confidence \<open>shorter.length / longer.length\<close>. The code takes \<^verbatim>\<open>Math.max\<close> of the two
  quotients of the lengths, which is \<open>longer.length / shorter.length\<close>: for the query
  \<open>10.5\<close> and the text item \<open>10.5mm\<close> (both unchanged by \<open>cleanText\<close>, unequal, the
  query contained in the item) the match returned has the confidence \<open>6 / 4\<close>, where the
  claim says \<open>4 / 6\<close>.
\<close>

theorem findTextPosition_substring_confidence:
  "cleanText ''10.5'' = ''10.5'' \<and> cleanText ''10.5mm'' = ''10.5mm''
   \<and> ''10.5'' \<noteq> ''10.5mm'' \<and> includesStr ''10.5mm'' ''10.5''
   \<and> substringSimilarity ''10.5'' ''10.5mm'' = Num (6 / 4)
   \<and> findTextPosition ''10.5'' [pageWith [''10.5mm'']] (7 / 10)
       = Some (matchAt (pageWith [''10.5mm'']) (itemAt ''10.5mm'') (Num (6 / 4)))"
  by (simp add: text_eval match_eval)

theorem findTextPosition_substring_confidence_witness:
  "findTextPosition ''10.5'' [pageWith [''10.5mm'']] (7 / 10)
     \<noteq> Some (matchAt (pageWith [''10.5mm'']) (itemAt ''10.5mm'') (Num (4 / 6)))"
  using findTextPosition_substring_confidence by (simp add: matchAt_def)

text \<open>
  C4. The claim bounds the confidence of every match returned by \<open>[0, 1]\<close>. For the query
  \<open>abc\<close> and a text item of two blanks, whose cleaned text is empty and so contained in
  the query, the substring branch divides by the length 0 and the match returned has the
  confidence \<^verbatim>\<open>Infinity\<close>; for the query \<open>10.5 mm\<close> and the item \<open>10.5\<close> it is
  \<open>7 / 4\<close>.
\<close>

theorem findTextPosition_confidence_out_of_range:
  "findTextPosition ''abc'' [pageWith [''  '']] (7 / 10)
     = Some (matchAt (pageWith [''  '']) (itemAt ''  '') PosInf)
   \<and> findTextPosition ''10.5 mm'' [pageWith [''10.5'']] (7 / 10)
       = Some (matchAt (pageWith [''10.5'']) (itemAt ''10.5'') (Num (7 / 4)))"
  by (simp add: text_eval match_eval)

theorem findTextPosition_confidence_out_of_range_witness:
  "(\<exists>m. findTextPosition ''abc'' [pageWith [''  '']] (7 / 10) = Some m
        \<and> \<not> inUnitInterval (tm_confidence m))
   \<and> (\<exists>m. findTextPosition ''10.5 mm'' [pageWith [''10.5'']] (7 / 10) = Some m
        \<and> \<not> inUnitInterval (tm_confidence m))"
  using findTextPosition_confidence_out_of_range
  by (simp add: matchAt_def inUnitInterval_def)


section \<open>Dimension matcher\<close>

lemma firstMatch_firstSuccess:
  "firstMatch queries pdfPages c = firstSuccess queries pdfPages c"
  by (induction queries) (auto simp: firstSuccess_def split: option.splits)

lemma dimensionPatterns_guarded:
  "dimensionPatterns toStr description nominal tolPlus tolMinus
     = guardedDimensionCandidates toStr nominal tolPlus tolMinus description"
  by (cases nominal; cases tolPlus; cases tolMinus)
     (simp_all add: dimensionPatterns_def guardedDimensionCandidates_def
        specDimensionCandidates_def)

lemma firstSuccess_Cons:
  "firstSuccess (q # qs) pdfPages c =
     (case findTextPosition q pdfPages c of
        Some m \<Rightarrow> Some m
      | None \<Rightarrow> firstSuccess qs pdfPages c)"
  by (auto simp: firstSuccess_def split: option.splits)

text \<open>
  C10, as stated, fails: for every nominal value and tolerances the claim takes the five
  candidates in order. With the nominal value 0 and both tolerances 0.1 the code builds the
  description alone, so on a page whose only text is \<open>0 \<plusminus>0.1\<close> it finds nothing, where
  the first of the five candidates matches exactly.
\<close>

theorem findDimensionPosition_not_all_candidates:
  "findDimensionPosition sampleNumberToString ''hole'' (Some 0) (Some (1 / 10)) (Some (1 / 10))
       None [pageWith [''0 '' @ [plusMinus] @ ''0.1'']]
     \<noteq> firstSuccess (specDimensionCandidates sampleNumberToString 0 (1 / 10) (1 / 10) ''hole'')
         [pageWith [''0 '' @ [plusMinus] @ ''0.1'']] (6 / 10)"
  by (simp add: findDimensionPosition_def dimensionPatterns_def specDimensionCandidates_def
      firstSuccess_def sampleNumberToString_def text_eval match_eval)

text \<open>
  C10, amended. \<open>findDimensionPosition\<close> returns the first successful \<open>findTextPosition\<close>
  at the threshold 0.6 over the candidates in order, where the three tolerance forms are
  candidates only when the nominal value is present and not zero and both tolerances are
  present and not zero, the bare nominal value only when it is present and not zero, and
  the description always; it returns nothing when no candidate succeeds. With a nominal
  value and two tolerances, none of them zero, these are the five candidates of the claim.
  The witness has a first candidate that matches a text at 8/9 while the second candidate
  would match another text exactly: the first success is returned, not the best.
\<close>

theorem findDimensionPosition_first_success:
  "findDimensionPosition toStr description nominal tolPlus tolMinus unit pdfPages
     = firstSuccess (guardedDimensionCandidates toStr nominal tolPlus tolMinus description)
         pdfPages (6 / 10)
   \<and> (n \<noteq> 0 \<and> tp \<noteq> 0 \<and> tm \<noteq> 0 \<longrightarrow>
        findDimensionPosition toStr description (Some n) (Some tp) (Some tm) unit pdfPages
          = firstSuccess (specDimensionCandidates toStr n tp tm description) pdfPages (6 / 10))"
  by (simp add: findDimensionPosition_def firstMatch_firstSuccess dimensionPatterns_guarded)
     (simp add: guardedDimensionCandidates_def specDimensionCandidates_def)

theorem findDimensionPosition_first_success_witness:
  "(21 / 2 :: real) \<noteq> 0 \<and> (1 / 10 :: real) \<noteq> 0
   \<and> findDimensionPosition sampleNumberToString ''hole'' (Some (21 / 2)) (Some (1 / 10))
         (Some (1 / 10)) None
         [pageWith [''10.5 '' @ [plusMinus] @ ''0.2'', ''10.5'' @ [plusMinus] @ ''0.1'']]
       = Some (matchAt (pageWith [''10.5 '' @ [plusMinus] @ ''0.2'', ''10.5'' @ [plusMinus] @ ''0.1''])
                 (itemAt (''10.5 '' @ [plusMinus] @ ''0.2'')) (Num (8 / 9)))
   \<and> findTextPosition (''10.5'' @ [plusMinus] @ ''0.1'')
         [pageWith [''10.5 '' @ [plusMinus] @ ''0.2'', ''10.5'' @ [plusMinus] @ ''0.1'']] (6 / 10)
       = Some (matchAt (pageWith [''10.5 '' @ [plusMinus] @ ''0.2'', ''10.5'' @ [plusMinus] @ ''0.1''])
                 (itemAt (''10.5'' @ [plusMinus] @ ''0.1'')) (Num 1))"
proof -
  let ?pages = "[pageWith [''10.5 '' @ [plusMinus] @ ''0.2'', ''10.5'' @ [plusMinus] @ ''0.1'']]"
  let ?m = "matchAt (pageWith [''10.5 '' @ [plusMinus] @ ''0.2'', ''10.5'' @ [plusMinus] @ ''0.1''])
              (itemAt (''10.5 '' @ [plusMinus] @ ''0.2'')) (Num (8 / 9))"
  have first: "findTextPosition (''10.5 '' @ [plusMinus] @ ''0.1'') ?pages (6 / 10) = Some ?m"
    by (simp add: text_eval match_eval)
  have second: "findTextPosition (''10.5'' @ [plusMinus] @ ''0.1'') ?pages (6 / 10)
       = Some (matchAt (pageWith [''10.5 '' @ [plusMinus] @ ''0.2'', ''10.5'' @ [plusMinus] @ ''0.1''])
                 (itemAt (''10.5'' @ [plusMinus] @ ''0.1'')) (Num 1))"
    by (simp add: text_eval match_eval)
  have "firstSuccess (specDimensionCandidates sampleNumberToString (21 / 2) (1 / 10) (1 / 10)
          ''hole'') ?pages (6 / 10) = Some ?m"
    using first
    by (simp add: specDimensionCandidates_def sampleNumberToString_def firstSuccess_Cons)
  with findDimensionPosition_first_success
    [of sampleNumberToString "''hole''" "Some (21 / 2)" "Some (1 / 10)" "Some (1 / 10)" None
       ?pages "21 / 2" "1 / 10" "1 / 10", THEN conjunct2]
  have "findDimensionPosition sampleNumberToString ''hole'' (Some (21 / 2)) (Some (1 / 10))
         (Some (1 / 10)) None ?pages = Some ?m"
    by simp
  with second show ?thesis
    by simp
qed


section \<open>Annotation generation\<close>

text \<open>
  The threshold of a requirement type: a name of the table, a name that is no property at
  all, and a name inherited from the prototype, under which no confidence passes.
\<close>

lemma thresholdOf_examples:
  "thresholdOf ''gdt'' = Num (55 / 100)"
  "thresholdOf ''weld'' = Num (7 / 10)"
  "thresholdOf ''constructor'' = NaN"
  "\<not> jsLessEq (thresholdOf ''constructor'') c"
  by (simp_all add: thresholdOf_def CONFIDENCE_THRESHOLDS_def inheritedKeys_def)

lemma sample_match:
  "matchAll sampleNumberToString [pageWith [sampleDimensionText]] 0 [sampleDimension]
     = [(0, matchAt (pageWith [sampleDimensionText]) (itemAt sampleDimensionText) (Num 1),
         ''dimension'')]"
  by (simp add: routeMatch_def sampleDimension_def truthyString_def findDimensionPosition_def
      dimensionPatterns_def sampleNumberToString_def sampleDimensionText_def thresholdOf_def
      CONFIDENCE_THRESHOLDS_def annotationTypeOf_def text_eval match_eval)

text \<open>
  The run of the specification: the batch insert succeeds, the one dimension is matched and
  gets its location, with \<open>x = 100 / pageWidth\<close>.
\<close>

lemma generateAnnotations_success_sets_location:
  "generateAnnotations (sampleCollaborators None) ''drawing-1'' ''pdf'' [sampleDimension]
   = (\<lparr> res_success = True,
        res_annotatedPdfUrl = Some ''https://storage/drawings/drawing-1_annotated.pdf'',
        res_annotationCount = 1, res_matchedCount = 1, res_errors = None \<rparr>,
      [sampleDimension \<lparr> ch_location := Some
         \<lparr> loc_x = Num (100 / 800), loc_y = Num (200 / 600), loc_width = Num (40 / 800),
           loc_height = Num (10 / 600), loc_page = 0, loc_confidence = Num 1 \<rparr> \<rparr>])"
  apply (simp add: generateAnnotations_def sampleCollaborators_def sample_match Let_def
      del: matchAll.simps)
  apply (simp add: renderAndUpload_def annotationBoxOf_def annotationRecordOf_def locationOf_def
      matchAt_def pageWith_def itemAt_def jsDiv_def)
  done

text \<open>
  C2. If the matching loop has produced annotation records and their batch insert fails,
  the result has \<open>success = false\<close> and the characteristics are as they were before the
  call, so no location has been set. And whenever a characteristic has changed, the text
  extraction has succeeded, there were records, and their batch insert has succeeded.
\<close>

theorem generateAnnotations_persistence_gate:
  "(extractPDFTextPositions env pdfBuffer = Inr pdfPages
      \<and> annotationRecords (numberToString env) drawingId pdfPages characteristics \<noteq> []
      \<and> dbInsert env (annotationRecords (numberToString env) drawingId pdfPages characteristics)
          = Some e
    \<longrightarrow> \<not> res_success (fst (generateAnnotations env drawingId pdfBuffer characteristics))
      \<and> snd (generateAnnotations env drawingId pdfBuffer characteristics) = characteristics)
   \<and> (snd (generateAnnotations env drawingId pdfBuffer characteristics) \<noteq> characteristics
    \<longrightarrow> (\<exists>pages. extractPDFTextPositions env pdfBuffer = Inr pages
          \<and> annotationRecords (numberToString env) drawingId pages characteristics \<noteq> []
          \<and> dbInsert env (annotationRecords (numberToString env) drawingId pages characteristics)
              = None))"
proof (intro conjI impI)
  assume a: "extractPDFTextPositions env pdfBuffer = Inr pdfPages
      \<and> annotationRecords (numberToString env) drawingId pdfPages characteristics \<noteq> []
      \<and> dbInsert env (annotationRecords (numberToString env) drawingId pdfPages characteristics)
          = Some e"
  then show "\<not> res_success (fst (generateAnnotations env drawingId pdfBuffer characteristics))"
    by (simp add: generateAnnotations_def annotationRecords_def Let_def failed_def)
  from a show "snd (generateAnnotations env drawingId pdfBuffer characteristics) = characteristics"
    by (simp add: generateAnnotations_def annotationRecords_def Let_def failed_def)
next
  assume "snd (generateAnnotations env drawingId pdfBuffer characteristics) \<noteq> characteristics"
  then show "\<exists>pages. extractPDFTextPositions env pdfBuffer = Inr pages
          \<and> annotationRecords (numberToString env) drawingId pages characteristics \<noteq> []
          \<and> dbInsert env (annotationRecords (numberToString env) drawingId pages characteristics)
              = None"
    by (auto simp add: generateAnnotations_def annotationRecords_def Let_def
        split: sum.splits option.splits if_splits prod.splits)
qed

theorem generateAnnotations_persistence_gate_witness:
  "\<not> res_success (fst (generateAnnotations (sampleCollaborators (Some ''connection lost''))
        ''drawing-1'' ''pdf'' [sampleDimension]))
   \<and> snd (generateAnnotations (sampleCollaborators (Some ''connection lost''))
        ''drawing-1'' ''pdf'' [sampleDimension]) = [sampleDimension]
   \<and> ch_location sampleDimension = None"
proof -
  let ?env = "sampleCollaborators (Some ''connection lost'')"
  have ext: "extractPDFTextPositions ?env ''pdf'' = Inr [pageWith [sampleDimensionText]]"
    by (simp add: sampleCollaborators_def)
  have recs: "annotationRecords (numberToString ?env) ''drawing-1''
      [pageWith [sampleDimensionText]] [sampleDimension] \<noteq> []"
    by (simp add: annotationRecords_def sampleCollaborators_def sample_match
        del: matchAll.simps)
  have ins: "dbInsert ?env (annotationRecords (numberToString ?env) ''drawing-1''
      [pageWith [sampleDimensionText]] [sampleDimension]) = Some ''connection lost''"
    by (simp add: sampleCollaborators_def)
  from generateAnnotations_persistence_gate
    [of ?env "''pdf''" "[pageWith [sampleDimensionText]]" "''drawing-1''" "[sampleDimension]"
       "''connection lost''", THEN conjunct1] ext recs ins
  have "\<not> res_success (fst (generateAnnotations ?env ''drawing-1'' ''pdf'' [sampleDimension]))
    \<and> snd (generateAnnotations ?env ''drawing-1'' ''pdf'' [sampleDimension]) = [sampleDimension]"
    by blast
  then show ?thesis
    by (simp add: sampleDimension_def)
qed


section \<open>Balloon placer\<close>

text \<open>
  C1, as stated, fails: the perimeter layout does not look at the placed balloons. Without a
  target position, balloon 1 of 1 on a page of 800 by 600 is put at \<open>(40, 120)\<close>, on top of a
  balloon already placed there; the same happens with a target position when a text item
  covers the page, so that every candidate is rejected and the placement falls through to
  the perimeter layout.
\<close>

theorem computeSmartBalloonPlacement_perimeter_overlap:
  "computeSmartBalloonPlacement None 1 800 600 [balloonAt 40 120] 1 [] origin
     = Some \<lparr> pl_xPosition = 40, pl_yPosition = 120, pl_side = Left, pl_balloonDiameter = 24 \<rparr>
   \<and> computeSmartBalloonPlacement (Some sampleBox) 1 800 600 [balloonAt 40 120] 1
       [\<lparr> bx_x = 0, bx_y = 0, bx_width = 800, bx_height = 600 \<rparr>] origin
     = Some \<lparr> pl_xPosition = 40, pl_yPosition = 120, pl_side = Left, pl_balloonDiameter = 24 \<rparr>
   \<and> circlesOverlap
       \<lparr> pl_xPosition = 40, pl_yPosition = 120, pl_side = Left, pl_balloonDiameter = 24 \<rparr>
       (balloonAt 40 120)"
proof (intro conjI)
  show "computeSmartBalloonPlacement None 1 800 600 [balloonAt 40 120] 1 [] origin
     = Some \<lparr> pl_xPosition = 40, pl_yPosition = 120, pl_side = Left, pl_balloonDiameter = 24 \<rparr>"
    by (simp add: computeSmartBalloonPlacement_def calculateBalloonSize_def perimeter_eval
        Let_def)
  show "computeSmartBalloonPlacement (Some sampleBox) 1 800 600 [balloonAt 40 120] 1
       [\<lparr> bx_x = 0, bx_y = 0, bx_width = 800, bx_height = 600 \<rparr>] origin
     = Some \<lparr> pl_xPosition = 40, pl_yPosition = 120, pl_side = Left, pl_balloonDiameter = 24 \<rparr>"
    by (simp add: placer_eval perimeter_eval)
  show "circlesOverlap
       \<lparr> pl_xPosition = 40, pl_yPosition = 120, pl_side = Left, pl_balloonDiameter = 24 \<rparr>
       (balloonAt 40 120)"
    by (simp add: circlesOverlap_def balloonAt_def hypot_def)
qed

lemma acceptable_clear:
  assumes "acceptable D bounds pageWidth pageHeight existingBalloons allTextItems tp c"
    and "existing \<in> set existingBalloons"
  shows "D / 2 + eb_balloonDiameter existing / 2 + 5
      \<le> hypot (cd_x c - eb_xPosition existing) (cd_y c - eb_yPosition existing)"
proof -
  from assms(1) have "isBlankSpace D bounds pageWidth pageHeight existingBalloons allTextItems
      (cd_x c) (cd_y c)"
    by (simp add: acceptable_def Let_def)
  then have "\<not> list_ex (tooCloseToBalloon (D / 2) (cd_x c) (cd_y c)) existingBalloons"
    by (simp add: isBlankSpace_def Let_def split: if_splits)
  with assms(2) have "\<not> tooCloseToBalloon (D / 2) (cd_x c) (cd_y c) existing"
    by (auto simp: list_ex_iff)
  then show ?thesis
    by (simp add: tooCloseToBalloon_def Let_def)
qed

text \<open>
  C1, amended. A position returned by \<open>computeSmartBalloonPlacement\<close> is either the
  position of the perimeter layout, which is not checked against the placed balloons, or a
  position whose centre is at least the sum of the two radii plus 5 away from the centre of
  every balloon of the input, so that its circle overlaps none of them.
\<close>

theorem computeSmartBalloonPlacement_clear_unless_perimeter:
  assumes "computeSmartBalloonPlacement textPosition balloonNumber pageWidth pageHeight
      existingBalloons totalCharacteristics allTextItems drawingOrigin = Some p"
  shows "Some p = map_option (withDiameter (calculateBalloonSize totalCharacteristics))
        (computePerimeterBalloonLayout balloonNumber totalCharacteristics pageWidth pageHeight)
    \<or> (\<forall>existing \<in> set existingBalloons.
          pl_balloonDiameter p / 2 + eb_balloonDiameter existing / 2 + 5
            \<le> hypot (pl_xPosition p - eb_xPosition existing)
                 (pl_yPosition p - eb_yPosition existing)
          \<and> \<not> circlesOverlap p existing)"
proof -
  let ?D = "calculateBalloonSize totalCharacteristics"
  let ?bounds = "drawingBoundsOf drawingOrigin pageWidth pageHeight"
  have clear: "\<forall>existing \<in> set existingBalloons.
      pl_balloonDiameter (placementAt c ?D) / 2 + eb_balloonDiameter existing / 2 + 5
        \<le> hypot (pl_xPosition (placementAt c ?D) - eb_xPosition existing)
             (pl_yPosition (placementAt c ?D) - eb_yPosition existing)
      \<and> \<not> circlesOverlap (placementAt c ?D) existing"
    if "acceptable ?D ?bounds pageWidth pageHeight existingBalloons allTextItems tp c" for tp c
  proof
    fix existing
    assume "existing \<in> set existingBalloons"
    from acceptable_clear [OF that this]
    show "pl_balloonDiameter (placementAt c ?D) / 2 + eb_balloonDiameter existing / 2 + 5
        \<le> hypot (pl_xPosition (placementAt c ?D) - eb_xPosition existing)
             (pl_yPosition (placementAt c ?D) - eb_yPosition existing)
      \<and> \<not> circlesOverlap (placementAt c ?D) existing"
      by (simp add: placementAt_def circlesOverlap_def)
  qed
  show ?thesis
  proof (cases textPosition)
    case None
    with assms show ?thesis
      by (auto simp: computeSmartBalloonPlacement_def Let_def)
  next
    case (Some tp)
    let ?ok = "acceptable ?D ?bounds pageWidth pageHeight existingBalloons allTextItems tp"
    show ?thesis
    proof (cases "find ?ok (candidatePositions tp)")
      case (Some c)
      then have "?ok c"
        by (auto simp: find_Some_iff)
      moreover from assms \<open>textPosition = Some tp\<close> Some have "p = placementAt c ?D"
        by (simp add: computeSmartBalloonPlacement_def Let_def)
      ultimately show ?thesis
        using clear by blast
    next
      case None
      note first = this
      show ?thesis
      proof (cases "find ?ok (adjustedPositions (candidatePositions tp))")
        case (Some c)
        then have "?ok c"
          by (auto simp: find_Some_iff)
        moreover from assms \<open>textPosition = Some tp\<close> first Some have "p = placementAt c ?D"
          by (simp add: computeSmartBalloonPlacement_def Let_def)
        ultimately show ?thesis
          using clear by blast
      next
        case None
        with assms \<open>textPosition = Some tp\<close> first show ?thesis
          by (auto simp: computeSmartBalloonPlacement_def Let_def)
      qed
    qed
  qed
qed

theorem computeSmartBalloonPlacement_clear_unless_perimeter_witness:
  "computeSmartBalloonPlacement (Some sampleBox) 1 1000 1000 [balloonAt 375 305] 1 [] origin
     = Some \<lparr> pl_xPosition = 265, pl_yPosition = 305, pl_side = Left, pl_balloonDiameter = 24 \<rparr>
   \<and> computePerimeterBalloonLayout 1 1 1000 1000
     = Some \<lparr> pp_xPosition = 40, pp_yPosition = 120, pp_side = Left \<rparr>
   \<and> 24 / 2 + 24 / 2 + 5 \<le> hypot (265 - 375) (305 - 305)
   \<and> \<not> circlesOverlap
        \<lparr> pl_xPosition = 265, pl_yPosition = 305, pl_side = Left, pl_balloonDiameter = 24 \<rparr>
        (balloonAt 375 305)"
proof -
  let ?p = "\<lparr> pl_xPosition = 265, pl_yPosition = 305, pl_side = Left, pl_balloonDiameter = 24 \<rparr>"
  have placed: "computeSmartBalloonPlacement (Some sampleBox) 1 1000 1000 [balloonAt 375 305] 1
      [] origin = Some ?p"
    by (simp add: placer_eval)
  have per: "computePerimeterBalloonLayout 1 1 1000 1000
     = Some \<lparr> pp_xPosition = 40, pp_yPosition = 120, pp_side = Left \<rparr>"
    by (simp add: perimeter_eval Let_def)
  from computeSmartBalloonPlacement_clear_unless_perimeter [OF placed] per
  have "\<forall>existing \<in> set [balloonAt 375 305].
          pl_balloonDiameter ?p / 2 + eb_balloonDiameter existing / 2 + 5
            \<le> hypot (pl_xPosition ?p - eb_xPosition existing)
                 (pl_yPosition ?p - eb_yPosition existing)
          \<and> \<not> circlesOverlap ?p existing"
    by (simp add: withDiameter_def)
  then have "24 / 2 + 24 / 2 + 5 \<le> hypot (265 - 375) (305 - 305)
      \<and> \<not> circlesOverlap ?p (balloonAt 375 305)"
    by (simp add: balloonAt_def)
  with placed per show ?thesis
    by simp
qed

end
